theory Spec2Isabelle
  imports Complex_Main
begin

section \<open>The fund-distribution lambda (main.go)\<close>

text \<open>
  The program is one Go file: \<^verbatim>\<open>HandleEvent\<close> reads the vault balance, keeps a fee
  reserve, sends one third of the rest to the token holder contract and two thirds to a
  second address, then calls \<^verbatim>\<open>SellVouchers\<close> and \<^verbatim>\<open>BuyVouchers\<close>; after each
  submission \<^verbatim>\<open>waitForTx\<close> waits for the receipt.

  Everything the code reaches outside itself (the configuration package, the chain client,
  the contract binding, the key and address parsers) is a field of the record \<open>env\<close>:
  the answer each call gives. The context is the record \<open>Context\<close>. The code's own
  state is the record \<open>world\<close>: a clock, the number of receipt queries made, the number
  of transactions submitted, and the log of the calls made so far. The clock counts the
  time-units of \<^verbatim>\<open>time.After\<close> (seconds); it moves only in the \<^verbatim>\<open>select\<close> of
  \<^verbatim>\<open>waitForTx\<close>, every other call returns at once on it.
  \<^verbatim>\<open>*big.Int\<close> is \<open>int\<close>; \<^verbatim>\<open>big.Int.Div\<close> is Euclidean division, which for the
  divisor 3 is \<open>div\<close>. A Go \<^verbatim>\<open>error\<close> result is \<open>error option\<close> (\<open>None\<close> is
  \<^verbatim>\<open>nil\<close>); a \<^verbatim>\<open>(value, error)\<close> pair is \<open>error + value\<close>.
  \<^verbatim>\<open>init\<close> (lines 34-56), which copies parameters into the environment before
  \<^verbatim>\<open>HandleEvent\<close> runs, and the logging are left out.
\<close>

subsection \<open>Data\<close>

type_synonym hash = nat
type_synonym address = nat
type_synonym key = nat

text \<open>The fields of a receipt that the code reads or prints.\<close>

record receipt =
  Status :: nat
  TxHash :: hash

text \<open>
  \<^verbatim>\<open>fmt.Errorf(format, a...)\<close> is kept as the format string and its arguments,
  so that two errors are equal exactly when the code built them from the same call site and
  values. \<open>NotFound\<close> is \<^verbatim>\<open>ethereum.NotFound\<close>; \<open>Canceled\<close> and
  \<open>DeadlineExceeded\<close> are the two values of \<^verbatim>\<open>ctx.Err()\<close>; \<open>External s\<close> is any
  other error of a library.
\<close>

datatype error =
    NotFound
  | Canceled
  | DeadlineExceeded
  | External string
  | Errorf string "fmtarg list"
and fmtarg =
    AError error
  | AHash hash
  | AAddress address
  | AReceipt receipt

text \<open>\<^verbatim>\<open>bind.TransactOpts\<close>: the fields the code sets.\<close>

record TransactOpts =
  Signer :: key
  GasPrice :: "int option"
  GasLimit :: nat
  Value :: "int option"

text \<open>
  \<^verbatim>\<open>events.CloudWatchEvent\<close>: the only field read is \<^verbatim>\<open>Time\<close>, and only through
  \<^verbatim>\<open>%s\<close>, so it is kept as the text that \<^verbatim>\<open>%s\<close> prints.
\<close>

record CloudWatchEvent =
  Time :: string

text \<open>
  \<^verbatim>\<open>context.Context\<close>: the instant at which \<^verbatim>\<open>ctx.Done()\<close> is closed, if ever,
  and the value \<^verbatim>\<open>ctx.Err()\<close> has from then on.
\<close>

record Context =
  done_at :: "nat option"
  ctx_Err :: error

text \<open>The variables of the package \<^verbatim>\<open>config\<close> that \<^verbatim>\<open>HandleEvent\<close> reads.\<close>

record config =
  EthereumJSONRPCURL :: string
  deqodeVaultPrivateKey :: string
  TokenHolderProcessingKey :: string
  deqodeAddress :: string
  TokenHolderContractAddress :: string

text \<open>
  The calls that leave the program, as they are written to the log, each with the error the
  code got from it (\<open>None\<close> is \<^verbatim>\<open>nil\<close>). \<open>After4\<close> is a completed \<^verbatim>\<open>time.After(4 * time.Second)\<close>;
  \<open>CtxDone\<close> is a receive from \<^verbatim>\<open>ctx.Done()\<close>.
\<close>

datatype call =
    Parse
  | Dial string
  | SuggestGasPrice
  | BalanceAt address
  | Transfer TransactOpts address
  | Commit
  | After4
  | CtxDone
  | TransactionReceipt hash
  | NewContract address
  | SellVouchers TransactOpts
  | BuyVouchers TransactOpts

datatype entry = Entry call "error option"

record world =
  now :: nat
  queries :: nat
  sent :: nat
  trace :: "entry list"

text \<open>
  The answers of the outside. \<open>transfer\<close>, \<open>sellVouchers\<close> and \<open>buyVouchers\<close> also
  get the number of transactions submitted before (two submissions with the same arguments
  need not give the same hash); \<open>transactionReceipt\<close> gets the number of receipt queries
  made before. \<open>commiter\<close> says whether the backend has a \<^verbatim>\<open>Commit()\<close> method.
  \<open>ReceiptStatusSuccessful\<close> is the constant of the package \<^verbatim>\<open>types\<close>.
  \<open>timer_first\<close> settles the one race the clock cannot: the timer and the context
  becoming ready at the same instant.
\<close>

record env =
  cfg :: config
  config_Parse :: "error option"
  ethclient_Dial :: "string \<Rightarrow> error option"
  suggestGasPrice :: "error + int"
  HexToECDSA :: "string \<Rightarrow> error + key"
  HexToAddress :: "string \<Rightarrow> address"
  PubkeyToAddress :: "key \<Rightarrow> address"
  balanceAt :: "address \<Rightarrow> error + int"
  transfer :: "nat \<Rightarrow> TransactOpts \<Rightarrow> address \<Rightarrow> error + hash"
  commiter :: bool
  transactionReceipt :: "hash \<Rightarrow> nat \<Rightarrow> error + receipt"
  ReceiptStatusSuccessful :: nat
  newContract :: "address \<Rightarrow> error option"
  sellVouchers :: "nat \<Rightarrow> TransactOpts \<Rightarrow> error + hash"
  buyVouchers :: "nat \<Rightarrow> TransactOpts \<Rightarrow> error + hash"
  timer_first :: bool

subsection \<open>Helpers of the model\<close>

definition record_call :: "call \<Rightarrow> error option \<Rightarrow> world \<Rightarrow> world" where
  "record_call c r w = w\<lparr>trace := trace w @ [Entry c r]\<rparr>"

fun err_of :: "error + 'a \<Rightarrow> error option" where
  "err_of (Inl e) = Some e"
| "err_of (Inr v) = None"

text \<open>\<^verbatim>\<open>formatError\<close> (lines 219-221): the string is empty, the error is built by \<^verbatim>\<open>fmt.Errorf\<close>.\<close>

definition formatError :: "string \<Rightarrow> fmtarg list \<Rightarrow> error + string" where
  "formatError format a = Inl (Errorf format a)"

text \<open>The package variables (lines 28-32).\<close>

definition int2 :: int where "int2 = 2"
definition int3 :: int where "int3 = 3"
definition gasLimit :: int where "gasLimit = 21000"

text \<open>\<^verbatim>\<open>bind.NewKeyedTransactor(key)\<close>: only the signer is set.\<close>

definition NewKeyedTransactor :: "key \<Rightarrow> TransactOpts" where
  "NewKeyedTransactor k = \<lparr>Signer = k, GasPrice = None, GasLimit = 0, Value = None\<rparr>"

subsection \<open>waitForTx (lines 178-217)\<close>

text \<open>What lines 190-192 and 211-213 do with a receipt.\<close>

definition check_status :: "env \<Rightarrow> receipt \<Rightarrow> error option" where
  "check_status env tr =
     (if Status tr \<noteq> ReceiptStatusSuccessful env
      then Some (Errorf ''tx failed: %+v'' [AReceipt tr])
      else None)"

text \<open>
  The error that the code finds in the answer to a receipt query: the error returned, or
  the error made from a receipt whose status is not the successful one.
\<close>

definition found :: "env \<Rightarrow> error + receipt \<Rightarrow> error option" where
  "found env r = (case r of Inl err \<Rightarrow> Some err | Inr tr \<Rightarrow> check_status env tr)"

text \<open>
  One receipt query: the answer is the one the backend gives to this hash at this query
  number; the query is counted, and logged with the error found in the answer.
\<close>

definition query :: "env \<Rightarrow> hash \<Rightarrow> world \<Rightarrow> (error + receipt) \<times> world" where
  "query env txHash w =
     (let r = transactionReceipt env txHash (queries w)
      in (r, record_call (TransactionReceipt txHash) (found env r) (w\<lparr>queries := queries w + 1\<rparr>)))"

text \<open>
  The \<^verbatim>\<open>select\<close> of lines 197-201 entered at time \<open>now w\<close>. The timer channel is
  created on entry, so it is ready only 4 time-units later; a context that is already done
  is therefore received at once, one that becomes done during the 4 units is received at that
  instant, and otherwise the timer is received. \<open>True\<close> is the first case of the
  \<^verbatim>\<open>select\<close> (return \<^verbatim>\<open>ctx.Err()\<close>).
\<close>

definition select_done :: "env \<Rightarrow> Context \<Rightarrow> world \<Rightarrow> bool" where
  "select_done env ctx w =
     (case done_at ctx of
        None \<Rightarrow> False
      | Some c \<Rightarrow> c < now w + 4 \<or> (c = now w + 4 \<and> \<not> timer_first env))"

definition after_done :: "Context \<Rightarrow> world \<Rightarrow> world" where
  "after_done ctx w =
     record_call CtxDone (Some (ctx_Err ctx))
       (w\<lparr>now := (case done_at ctx of None \<Rightarrow> now w | Some c \<Rightarrow> max (now w) c)\<rparr>)"

definition after_timer :: "world \<Rightarrow> world" where
  "after_timer w = record_call After4 None (w\<lparr>now := now w + 4\<rparr>)"

text \<open>
  The loop of lines 196-216. It need not end (a backend that answers not found for ever and
  a context that is never done), so its value is an option: \<open>None\<close> is a loop that
  does not return.
\<close>

partial_function (option) poll ::
  "env \<Rightarrow> Context \<Rightarrow> hash \<Rightarrow> world \<Rightarrow> (error option \<times> world) option" where
  "poll env ctx txHash w =
     (if select_done env ctx w then Some (Some (ctx_Err ctx), after_done ctx w)
      else
        (case fst (query env txHash (after_timer w)) of
           Inl err \<Rightarrow>
             (if err = NotFound then poll env ctx txHash (snd (query env txHash (after_timer w)))
              else Some (Some err, snd (query env txHash (after_timer w))))
         | Inr tr \<Rightarrow> Some (check_status env tr, snd (query env txHash (after_timer w)))))"

declare poll.simps [code]

text \<open>Lines 184-194: the backend has \<^verbatim>\<open>Commit()\<close>.\<close>

definition commit_and_check :: "env \<Rightarrow> hash \<Rightarrow> world \<Rightarrow> error option \<times> world" where
  "commit_and_check env txHash w =
     (case query env txHash (record_call Commit None w) of
        (Inl err, w') \<Rightarrow> (Some err, w')
      | (Inr tr, w') \<Rightarrow> (check_status env tr, w'))"

definition waitForTx ::
  "env \<Rightarrow> Context \<Rightarrow> hash \<Rightarrow> world \<Rightarrow> (error option \<times> world) option" where
  "waitForTx env ctx txHash w =
     (if commiter env then Some (commit_and_check env txHash w)
      else poll env ctx txHash w)"

subsection \<open>HandleEvent (lines 59-172)\<close>

text \<open>A submission: logged with its error, and counted.\<close>

definition submit :: "call \<Rightarrow> error + hash \<Rightarrow> world \<Rightarrow> world" where
  "submit c r w = record_call c (err_of r) (w\<lparr>sent := sent w + 1\<rparr>)"

text \<open>
  Line 102: \<^verbatim>\<open>vaultBalance.Sub(vaultBalance, new(big.Int).Mul(big.NewInt(gasLimit*2), gasPrice))\<close>.
\<close>

definition subtract_fees :: "int \<Rightarrow> int \<Rightarrow> int" where
  "subtract_fees vaultBalance gasPrice = vaultBalance - (gasLimit * 2) * gasPrice"

text \<open>Line 115 and line 128: the two values sent.\<close>

definition first_value :: "int \<Rightarrow> int" where
  "first_value vaultBalance = vaultBalance div int3"

definition second_value :: "int \<Rightarrow> int" where
  "second_value vaultBalance = (vaultBalance div int3) * int2"

text \<open>Lines 140-171: the contract binding and the two voucher calls.\<close>

definition vouchers ::
  "env \<Rightarrow> Context \<Rightarrow> CloudWatchEvent \<Rightarrow> address \<Rightarrow> key \<Rightarrow> world
     \<Rightarrow> ((error + string) \<times> world) option" where
  "vouchers env ctx event tokenHolderContractAddress tokenHolderProcessingKey w =
     (let w1 = record_call (NewContract tokenHolderContractAddress)
                 (newContract env tokenHolderContractAddress) w
      in case newContract env tokenHolderContractAddress of
        Some err \<Rightarrow>
          Some (formatError ''Failed to load token holder contract for address %s with error : %s''
                  [AAddress tokenHolderContractAddress, AError err], w1)
      | None \<Rightarrow>
          (let tokenHolderAuth = NewKeyedTransactor tokenHolderProcessingKey;
               sell = sellVouchers env (sent w1) tokenHolderAuth;
               w2 = submit (SellVouchers tokenHolderAuth) sell w1
           in case sell of
             Inl err \<Rightarrow>
               Some (formatError ''Failed to  call sell vouchers of token holder program contract with error : %s''
                       [AError err], w2)
           | Inr txn \<Rightarrow>
               (case waitForTx env ctx txn w2 of
                  None \<Rightarrow> None
                | Some (Some err, w3) \<Rightarrow>
                    Some (formatError ''Sell vouchers txn with hash %s failed  with error : %s''
                            [AHash txn, AError err], w3)
                | Some (None, w3) \<Rightarrow>
                    (let buy = buyVouchers env (sent w3) tokenHolderAuth;
                         w4 = submit (BuyVouchers tokenHolderAuth) buy w3
                     in case buy of
                       Inl err \<Rightarrow>
                         Some (formatError ''Failed to  call buy vouchers of token holder program contract with error : %s''
                                 [AError err], w4)
                     | Inr txn' \<Rightarrow>
                         (case waitForTx env ctx txn' w4 of
                            None \<Rightarrow> None
                          | Some (Some err, w5) \<Rightarrow>
                              Some (formatError ''Buy vouchers txn with hash %s failed  with error : %s''
                                      [AHash txn', AError err], w5)
                          | Some (None, w5) \<Rightarrow>
                              Some (Inr (''Token holder event successfully called at '' @ Time event @ ''!''),
                                    w5))))))"

text \<open>
  Lines 109-138: the two transfers, with the balance left after the fees, then the vouchers.
\<close>

definition transfers ::
  "env \<Rightarrow> Context \<Rightarrow> CloudWatchEvent \<Rightarrow> key \<Rightarrow> key \<Rightarrow> address \<Rightarrow> address \<Rightarrow> int \<Rightarrow> int \<Rightarrow> world
     \<Rightarrow> ((error + string) \<times> world) option" where
  "transfers env ctx event vaultPrivateKey tokenHolderProcessingKey toDeqodeAddress
       tokenHolderContractAddress gasPrice vaultBalance w =
     (let vaultAuth = (NewKeyedTransactor vaultPrivateKey)
                        \<lparr>GasPrice := Some gasPrice, GasLimit := nat gasLimit\<rparr>;
          vaultAuth1 = vaultAuth\<lparr>Value := Some (first_value vaultBalance)\<rparr>;
          t1 = transfer env (sent w) vaultAuth1 tokenHolderContractAddress;
          w1 = submit (Transfer vaultAuth1 tokenHolderContractAddress) t1 w
      in case t1 of
        Inl err \<Rightarrow>
          Some (formatError ''Failed to transfer vault balance to token holder contract with error : %s''
                  [AError err], w1)
      | Inr txn \<Rightarrow>
          (case waitForTx env ctx txn w1 of
             None \<Rightarrow> None
           | Some (Some err, w2) \<Rightarrow>
               Some (formatError ''Fund transfer txn with hash %s failed  with error : %s''
                       [AHash txn, AError err], w2)
           | Some (None, w2) \<Rightarrow>
               (let vaultAuth2 = vaultAuth1\<lparr>Value := Some (second_value vaultBalance)\<rparr>;
                    t2 = transfer env (sent w2) vaultAuth2 toDeqodeAddress;
                    w3 = submit (Transfer vaultAuth2 toDeqodeAddress) t2 w2
                in case t2 of
                  Inl err \<Rightarrow>
                    Some (formatError ''Failed to transfer vault balance to deqode address with error : %s''
                            [AError err], w3)
                | Inr txn' \<Rightarrow>
                    (case waitForTx env ctx txn' w3 of
                       None \<Rightarrow> None
                     | Some (Some err, w4) \<Rightarrow>
                         Some (formatError ''Fund transfer txn with hash %s failed  with error : %s''
                                 [AHash txn', AError err], w4)
                     | Some (None, w4) \<Rightarrow>
                         vouchers env ctx event tokenHolderContractAddress
                           tokenHolderProcessingKey w4))))"

text \<open>Lines 59-107, and then the rest.\<close>

definition HandleEvent ::
  "env \<Rightarrow> Context \<Rightarrow> CloudWatchEvent \<Rightarrow> world \<Rightarrow> ((error + string) \<times> world) option" where
  "HandleEvent env ctx event w =
     (let w1 = record_call Parse (config_Parse env) w
      in case config_Parse env of
        Some err \<Rightarrow>
          Some (formatError ''Unable to parse environment variables with error : %s'' [AError err], w1)
      | None \<Rightarrow>
     (let url = EthereumJSONRPCURL (cfg env);
          w2 = record_call (Dial url) (ethclient_Dial env url) w1
      in case ethclient_Dial env url of
        Some err \<Rightarrow>
          Some (formatError ''Failed to call ethereum client with error : %s'' [AError err], w2)
      | None \<Rightarrow>
     (let w3 = record_call SuggestGasPrice (err_of (suggestGasPrice env)) w2
      in case suggestGasPrice env of
        Inl err \<Rightarrow>
          Some (formatError ''Failed to get gas price from ethereum client with error : %s''
                  [AError err], w3)
      | Inr gasPrice \<Rightarrow>
     (case HexToECDSA env (deqodeVaultPrivateKey (cfg env)) of
        Inl err \<Rightarrow>
          Some (formatError
                  ''Failed to parse ecdsa private key from deqode vault private key sting with error : %s''
                  [AError err], w3)
      | Inr vaultPrivateKey \<Rightarrow>
     (case HexToECDSA env (TokenHolderProcessingKey (cfg env)) of
        Inl err \<Rightarrow>
          Some (formatError
                  ''Failed to parse ecdsa private key from token holder processing key string with error : %s''
                  [AError err], w3)
      | Inr tokenHolderProcessingKey \<Rightarrow>
     (let toDeqodeAddress = HexToAddress env (deqodeAddress (cfg env));
          tokenHolderContractAddress = HexToAddress env (TokenHolderContractAddress (cfg env));
          deqodeVaultAddress = PubkeyToAddress env vaultPrivateKey;
          w4 = record_call (BalanceAt deqodeVaultAddress)
                 (err_of (balanceAt env deqodeVaultAddress)) w3
      in case balanceAt env deqodeVaultAddress of
        Inl err \<Rightarrow>
          Some (formatError ''Failed to get balance for vault with error : %s'' [AError err], w4)
      | Inr balance \<Rightarrow>
     (let vaultBalance = subtract_fees balance gasPrice
      in if \<not> 0 < vaultBalance
         then Some (formatError ''Not enough balance in vault to cover txn fees'' [], w4)
         else transfers env ctx event vaultPrivateKey tokenHolderProcessingKey toDeqodeAddress
                tokenHolderContractAddress gasPrice vaultBalance w4)))))))"

subsection \<open>Describing runs\<close>

text \<open>
  One round of the loop in which the timer is received: the two entries it logs, the second
  for the query number \<open>q\<close>.
\<close>

definition round_entries :: "env \<Rightarrow> hash \<Rightarrow> nat \<Rightarrow> entry list" where
  "round_entries env txHash q =
     [Entry After4 None,
      Entry (TransactionReceipt txHash) (found env (transactionReceipt env txHash q))]"

text \<open>The world after \<open>k\<close> such rounds: \<open>4 * k\<close> time-units later, \<open>k\<close> queries more.\<close>

definition rounds :: "env \<Rightarrow> hash \<Rightarrow> nat \<Rightarrow> world \<Rightarrow> world" where
  "rounds env txHash k w =
     w\<lparr>now := now w + 4 * k, queries := queries w + k,
       trace := trace w @ concat (map (round_entries env txHash) [queries w ..< queries w + k])\<rparr>"

text \<open>The first \<open>k\<close> answers from the query number \<open>queries w\<close> on are all not found.\<close>

definition not_found_for :: "env \<Rightarrow> hash \<Rightarrow> nat \<Rightarrow> world \<Rightarrow> bool" where
  "not_found_for env txHash k w =
     (\<forall>i<k. transactionReceipt env txHash (queries w + i) = Inl NotFound)"

text \<open>
  The timer is received in each of the first \<open>k\<close> rounds: the context is not done by the
  end of round \<open>k\<close> (at a tie, the timer goes first).
\<close>

definition timer_for :: "env \<Rightarrow> Context \<Rightarrow> nat \<Rightarrow> world \<Rightarrow> bool" where
  "timer_for env ctx k w = (\<forall>i<k. \<not> select_done env ctx (w\<lparr>now := now w + 4 * i\<rparr>))"

text \<open>
  The loop started in \<open>w\<close> ends after \<open>k\<close> rounds of not found with the outcome \<open>y\<close>:
  in round \<open>k + 1\<close> either the context is received, or the answer is not not-found.
\<close>

definition last_round :: "env \<Rightarrow> Context \<Rightarrow> hash \<Rightarrow> world \<Rightarrow> (error option \<times> world) option" where
  "last_round env ctx txHash w =
     (if select_done env ctx w then Some (Some (ctx_Err ctx), after_done ctx w)
      else if transactionReceipt env txHash (queries w) = Inl NotFound then None
      else Some (found env (transactionReceipt env txHash (queries w)), rounds env txHash 1 w))"

definition ends_after ::
  "env \<Rightarrow> Context \<Rightarrow> hash \<Rightarrow> world \<Rightarrow> nat \<Rightarrow> error option \<times> world \<Rightarrow> bool" where
  "ends_after env ctx txHash w k y =
     (not_found_for env txHash k w \<and> timer_for env ctx k w \<and>
      last_round env ctx txHash (rounds env txHash k w) = Some y)"

text \<open>
  The number of rounds in which the timer is received before a context that is done at
  \<open>c\<close>: the rounds end at \<open>now w + 4\<close>, \<open>now w + 8\<close>, and so on, and a round that
  ends exactly at \<open>c\<close> counts when the timer goes first.
\<close>

definition rounds_until :: "env \<Rightarrow> nat \<Rightarrow> world \<Rightarrow> nat" where
  "rounds_until env c w =
     (if c \<le> now w then 0
      else if timer_first env then (c - now w) div 4
      else (c - now w - 1) div 4)"

subsection \<open>A scripted backend, for concrete runs\<close>

text \<open>
  Every call succeeds; the balance, the gas price, whether the backend has
  \<^verbatim>\<open>Commit()\<close> and the answers to the receipt queries (by query number) are given.
\<close>

definition mock :: "bool \<Rightarrow> (nat \<Rightarrow> error + receipt) \<Rightarrow> int \<Rightarrow> int \<Rightarrow> env" where
  "mock sim answers balance price =
     \<lparr>cfg = \<lparr>EthereumJSONRPCURL = ''url'', deqodeVaultPrivateKey = ''k'',
              TokenHolderProcessingKey = ''kk'', deqodeAddress = ''0x1'',
              TokenHolderContractAddress = ''0x22''\<rparr>,
      config_Parse = None,
      ethclient_Dial = (\<lambda>url. None),
      suggestGasPrice = Inr price,
      HexToECDSA = (\<lambda>s. Inr (if s = ''k'' then 1 else 2)),
      HexToAddress = (\<lambda>s. if s = ''0x22'' then 4 else 3),
      PubkeyToAddress = (\<lambda>k. k + 10),
      balanceAt = (\<lambda>a. Inr balance),
      transfer = (\<lambda>n opts to. Inr (100 + n)),
      commiter = sim,
      transactionReceipt = (\<lambda>h. answers),
      ReceiptStatusSuccessful = 1,
      newContract = (\<lambda>a. None),
      sellVouchers = (\<lambda>n opts. Inr (100 + n)),
      buyVouchers = (\<lambda>n opts. Inr (100 + n)),
      timer_first = True\<rparr>"

definition start :: world where
  "start = \<lparr>now = 0, queries = 0, sent = 0, trace = []\<rparr>"

definition background :: Context where
  "background = \<lparr>done_at = None, ctx_Err = Canceled\<rparr>"

definition deadline :: "nat \<Rightarrow> Context" where
  "deadline c = \<lparr>done_at = Some c, ctx_Err = DeadlineExceeded\<rparr>"

definition good :: receipt where
  "good = \<lparr>Status = 1, TxHash = 7\<rparr>"

definition reverted :: receipt where
  "reverted = \<lparr>Status = 0, TxHash = 7\<rparr>"

text \<open>Not found on the first \<open>k\<close> queries, then the answer \<open>r\<close>.\<close>

definition after_not_found :: "nat \<Rightarrow> error + receipt \<Rightarrow> nat \<Rightarrow> error + receipt" where
  "after_not_found k r n = (if n < k then Inl NotFound else r)"

subsection \<open>Describing the log\<close>

text \<open>
  A failed call: one logged with an error. The one exception is not found as the answer to
  a query of the loop, which the code takes as not yet there (with \<^verbatim>\<open>Commit()\<close> the
  code returns it like any other error).
\<close>

fun failure :: "env \<Rightarrow> entry \<Rightarrow> bool" where
  "failure env (Entry c None) = False"
| "failure env (Entry (TransactionReceipt h) (Some e)) = (commiter env \<or> e \<noteq> NotFound)"
| "failure env (Entry c (Some e)) = True"

text \<open>The calls that submit a transaction: the two transfers and the two voucher calls.\<close>

fun submission :: "call \<Rightarrow> bool" where
  "submission (Transfer opts to) = True"
| "submission (SellVouchers opts) = True"
| "submission (BuyVouchers opts) = True"
| "submission c = False"

fun call_of :: "entry \<Rightarrow> call" where
  "call_of (Entry c r) = c"

definition submissions :: "entry list \<Rightarrow> call list" where
  "submissions es = filter submission (map call_of es)"

text \<open>
  What a stretch of the run from \<open>w\<close> to \<open>w'\<close> did: it added entries to the log, among
  them the submissions \<open>cs\<close>; no added entry but the last is a failed call; and when the
  stretch ended well (\<open>ok\<close>), no added entry is a failed call.
\<close>

definition stretch :: "env \<Rightarrow> world \<Rightarrow> bool \<Rightarrow> world \<Rightarrow> call list \<Rightarrow> bool" where
  "stretch env w ok w' cs =
     (\<exists>es. trace w' = trace w @ es \<and> submissions es = cs \<and>
           (\<forall>e\<in>set (butlast es). \<not> failure env e) \<and>
           (ok \<longrightarrow> (\<forall>e\<in>set es. \<not> failure env e)))"

text \<open>
  The calls before the fee check all succeed, with these keys, this gas price and this
  balance.
\<close>

definition prepared :: "env \<Rightarrow> key \<Rightarrow> key \<Rightarrow> int \<Rightarrow> int \<Rightarrow> bool" where
  "prepared env vaultKey processingKey gasPrice balance =
     (config_Parse env = None \<and>
      ethclient_Dial env (EthereumJSONRPCURL (cfg env)) = None \<and>
      suggestGasPrice env = Inr gasPrice \<and>
      HexToECDSA env (deqodeVaultPrivateKey (cfg env)) = Inr vaultKey \<and>
      HexToECDSA env (TokenHolderProcessingKey (cfg env)) = Inr processingKey \<and>
      balanceAt env (PubkeyToAddress env vaultKey) = Inr balance)"

text \<open>The world they leave: four entries more in the log, nothing submitted.\<close>

definition prepared_world :: "env \<Rightarrow> key \<Rightarrow> world \<Rightarrow> world" where
  "prepared_world env vaultKey w =
     w\<lparr>trace := trace w @
         [Entry Parse None,
          Entry (Dial (EthereumJSONRPCURL (cfg env))) None,
          Entry SuggestGasPrice None,
          Entry (BalanceAt (PubkeyToAddress env vaultKey)) None]\<rparr>"

text \<open>The two transfers as \<^verbatim>\<open>HandleEvent\<close> submits them, and the two voucher calls.\<close>

definition transfer_call :: "env \<Rightarrow> key \<Rightarrow> int \<Rightarrow> int \<Rightarrow> string \<Rightarrow> call" where
  "transfer_call env vaultKey gasPrice v to =
     Transfer \<lparr>Signer = vaultKey, GasPrice = Some gasPrice, GasLimit = 21000, Value = Some v\<rparr>
       (HexToAddress env to)"

definition plan :: "env \<Rightarrow> key \<Rightarrow> key \<Rightarrow> int \<Rightarrow> int \<Rightarrow> call list" where
  "plan env vaultKey processingKey gasPrice vaultBalance =
     [transfer_call env vaultKey gasPrice (first_value vaultBalance)
        (TokenHolderContractAddress (cfg env)),
      transfer_call env vaultKey gasPrice (second_value vaultBalance) (deqodeAddress (cfg env)),
      SellVouchers (NewKeyedTransactor processingKey),
      BuyVouchers (NewKeyedTransactor processingKey)]"

definition tick :: CloudWatchEvent where
  "tick = \<lparr>Time = ''2019-03-01 12:00:00 +0000 UTC''\<rparr>"

text \<open>
  The submission \<open>c\<close>, answered \<open>res\<close> in the world \<open>w\<close>, is accepted, and the wait for
  it returns \<^verbatim>\<open>nil\<close> and leaves the world \<open>w'\<close>.
\<close>

definition confirmed :: "env \<Rightarrow> Context \<Rightarrow> call \<Rightarrow> error + hash \<Rightarrow> world \<Rightarrow> world \<Rightarrow> bool" where
  "confirmed env ctx c res w w' =
     (case res of
        Inl e \<Rightarrow> False
      | Inr h \<Rightarrow> waitForTx env ctx h (submit c (Inr h) w) = Some (None, w'))"

text \<open>
  Between \<open>w\<close> and \<open>w'\<close> a receipt of \<open>h\<close> with the successful status was received: the
  log grew without a submission, its last entry is a query for \<open>h\<close> logged without an
  error, and the answer to that query, the last one counted, is such a receipt.
\<close>

definition receipt_seen :: "env \<Rightarrow> hash \<Rightarrow> world \<Rightarrow> world \<Rightarrow> bool" where
  "receipt_seen env h w w' =
     (queries w < queries w' \<and>
      (case transactionReceipt env h (queries w' - 1) of
         Inl e \<Rightarrow> False
       | Inr tr \<Rightarrow> Status tr = ReceiptStatusSuccessful env) \<and>
      length (trace w) < length (trace w') \<and>
      take (length (trace w)) (trace w') = trace w \<and>
      last (trace w') = Entry (TransactionReceipt h) None \<and>
      submissions (drop (length (trace w)) (trace w')) = [])"

section \<open>Properties\<close>

subsection \<open>Lemmas on the loop\<close>

lemma fst_query: "fst (query env h w) = transactionReceipt env h (queries w)"
  by (simp add: query_def Let_def)

lemma queries_after_timer: "queries (after_timer w) = queries w"
  by (simp add: after_timer_def record_call_def)

lemma rounds_0: "rounds env h 0 w = w"
  by (simp add: rounds_def)

lemma rounds_Suc: "snd (query env h (after_timer (rounds env h k w))) = rounds env h (Suc k) w"
  by (simp add: rounds_def query_def after_timer_def record_call_def round_entries_def Let_def)

lemma rounds_1: "snd (query env h (after_timer w)) = rounds env h 1 w"
  using rounds_Suc [of env h 0 w] by (simp add: rounds_0)

lemma rounds_rounds: "rounds env h k (rounds env h j w) = rounds env h (j + k) w"
proof -
  have "[queries w..<queries w + (j + k)] = [queries w..<queries w + j] @ [queries w + j..<queries w + j + k]"
    by (metis add.assoc le_add1 upt_add_eq_append)
  then show ?thesis
    by (simp add: rounds_def algebra_simps)
qed

lemma queries_rounds: "queries (rounds env h k w) = queries w + k"
  by (simp add: rounds_def)

lemma now_rounds: "now (rounds env h k w) = now w + 4 * k"
  by (simp add: rounds_def)

lemma sent_rounds: "sent (rounds env h k w) = sent w"
  by (simp add: rounds_def)

lemma trace_rounds:
  "trace (rounds env h k w) = trace w @ concat (map (round_entries env h) [queries w ..< queries w + k])"
  by (simp add: rounds_def)

lemma select_done_now: "now w = now w' \<Longrightarrow> select_done env ctx w = select_done env ctx w'"
  by (simp add: select_done_def split: option.splits)

lemma select_done_rounds:
  "select_done env ctx (rounds env h k w) = select_done env ctx (w\<lparr>now := now w + 4 * k\<rparr>)"
  by (rule select_done_now) (simp add: rounds_def)

lemma poll_done:
  "select_done env ctx w \<Longrightarrow> poll env ctx h w = Some (Some (ctx_Err ctx), after_done ctx w)"
  by (subst poll.simps) simp

lemma poll_not_found:
  assumes "\<not> select_done env ctx w" and "transactionReceipt env h (queries w) = Inl NotFound"
  shows "poll env ctx h w = poll env ctx h (rounds env h 1 w)"
  using assms by (subst poll.simps) (simp add: fst_query rounds_1 queries_after_timer)

lemma poll_settle:
  assumes "\<not> select_done env ctx w"
    and "transactionReceipt env h (queries w) \<noteq> Inl NotFound"
  shows "poll env ctx h w = Some (found env (transactionReceipt env h (queries w)), rounds env h 1 w)"
  using assms
  by (subst poll.simps)
     (simp add: fst_query rounds_1 queries_after_timer found_def split: sum.splits)

lemma poll_rounds:
  assumes "not_found_for env h k w" and "timer_for env ctx k w"
  shows "poll env ctx h w = poll env ctx h (rounds env h k w)"
  using assms
proof (induction k)
  case 0
  then show ?case by (simp add: rounds_0)
next
  case (Suc k)
  then have "poll env ctx h w = poll env ctx h (rounds env h k w)"
    by (simp add: not_found_for_def timer_for_def)
  also have "\<dots> = poll env ctx h (rounds env h 1 (rounds env h k w))"
    using Suc.prems
    by (intro poll_not_found)
       (simp_all add: select_done_rounds queries_rounds not_found_for_def timer_for_def)
  finally show ?case by (simp add: rounds_rounds)
qed

lemma poll_last_round: "last_round env ctx h w = Some y \<Longrightarrow> poll env ctx h w = Some y"
  by (cases "select_done env ctx w")
     (simp_all add: last_round_def poll_done poll_settle split: if_splits)

lemma ends_after_poll:
  assumes "ends_after env ctx h w k y"
  shows "poll env ctx h w = Some y"
proof -
  from assms have "poll env ctx h w = poll env ctx h (rounds env h k w)"
    by (intro poll_rounds) (simp_all add: ends_after_def)
  also from assms have "\<dots> = Some y"
    by (intro poll_last_round) (simp add: ends_after_def)
  finally show ?thesis .
qed

lemma not_found_for_Suc:
  assumes "transactionReceipt env h (queries w) = Inl NotFound"
    and "not_found_for env h k (rounds env h 1 w)"
  shows "not_found_for env h (Suc k) w"
  unfolding not_found_for_def
proof (intro allI impI)
  fix i assume i: "i < Suc k"
  show "transactionReceipt env h (queries w + i) = Inl NotFound"
  proof (cases i)
    case 0
    with assms(1) show ?thesis by simp
  next
    case (Suc j)
    with i assms(2) show ?thesis
      by (simp add: not_found_for_def queries_rounds)
  qed
qed

lemma timer_for_Suc:
  assumes "\<not> select_done env ctx w"
    and "timer_for env ctx k (rounds env h 1 w)"
  shows "timer_for env ctx (Suc k) w"
  unfolding timer_for_def
proof (intro allI impI)
  fix i assume i: "i < Suc k"
  show "\<not> select_done env ctx (w\<lparr>now := now w + 4 * i\<rparr>)"
  proof (cases i)
    case 0
    with assms(1) show ?thesis by simp
  next
    case (Suc j)
    have "select_done env ctx ((rounds env h 1 w)\<lparr>now := now (rounds env h 1 w) + 4 * j\<rparr>)
        = select_done env ctx (w\<lparr>now := now w + 4 * i\<rparr>)"
      using Suc by (intro select_done_now) (simp add: now_rounds)
    moreover from Suc i assms(2)
    have "\<not> select_done env ctx ((rounds env h 1 w)\<lparr>now := now (rounds env h 1 w) + 4 * j\<rparr>)"
      by (simp add: timer_for_def)
    ultimately show ?thesis by simp
  qed
qed

lemma ends_after_Suc:
  assumes "\<not> select_done env ctx w"
    and "transactionReceipt env h (queries w) = Inl NotFound"
    and "ends_after env ctx h (rounds env h 1 w) k y"
  shows "ends_after env ctx h w (Suc k) y"
proof -
  from assms(3) have "not_found_for env h k (rounds env h 1 w)"
    and "timer_for env ctx k (rounds env h 1 w)"
    and "last_round env ctx h (rounds env h (Suc k) w) = Some y"
    by (simp_all add: ends_after_def rounds_rounds)
  with assms(1,2) show ?thesis
    unfolding ends_after_def
    by (intro conjI not_found_for_Suc timer_for_Suc)
qed

lemma ends_after_0: "last_round env ctx h w = Some y \<Longrightarrow> ends_after env ctx h w 0 y"
  by (simp add: ends_after_def not_found_for_def timer_for_def rounds_0)

text \<open>Every run of the loop that returns is some rounds of not found, then a last round.\<close>

lemma poll_returns:
  assumes "poll env ctx h w = Some y"
  shows "\<exists>k. ends_after env ctx h w k y"
proof (rule poll.raw_induct [where P = "\<lambda>env ctx h w y. \<exists>k. ends_after env ctx h w k y", OF _ assms],
    goal_cases)
  case (1 poll env ctx h w y)
  show ?case
  proof (cases "last_round env ctx h w")
    case (Some z)
    have "z = y"
    proof (cases "select_done env ctx w")
      case True
      with 1(2) Some show ?thesis by (simp add: last_round_def)
    next
      case False
      with Some have "transactionReceipt env h (queries w) \<noteq> Inl NotFound"
        by (auto simp add: last_round_def)
      with False 1(2) Some show ?thesis
        by (cases "transactionReceipt env h (queries w)")
           (simp_all add: last_round_def fst_query queries_after_timer rounds_1 found_def
              split: if_splits)
    qed
    with Some show ?thesis
      using ends_after_0 by blast
  next
    case None
    then have nd: "\<not> select_done env ctx w"
      and nf: "transactionReceipt env h (queries w) = Inl NotFound"
      by (simp_all add: last_round_def split: if_splits)
    with 1(2) have "poll env ctx h (rounds env h 1 w) = Some y"
      by (simp add: fst_query queries_after_timer rounds_1)
    from 1(1) [OF this] obtain k where "ends_after env ctx h (rounds env h 1 w) k y" ..
    with nd nf show ?thesis
      using ends_after_Suc by blast
  qed
qed


lemma commit_and_check_eq:
  "commit_and_check env h w =
     (found env (transactionReceipt env h (queries w)),
      w\<lparr>queries := queries w + 1,
        trace := trace w @ [Entry Commit None,
          Entry (TransactionReceipt h) (found env (transactionReceipt env h (queries w)))]\<rparr>)"
  by (simp add: commit_and_check_def query_def record_call_def found_def Let_def split: sum.splits)

lemma waitForTx_poll: "\<not> commiter env \<Longrightarrow> waitForTx env ctx h w = poll env ctx h w"
  by (simp add: waitForTx_def)

lemma waitForTx_commit: "commiter env \<Longrightarrow> waitForTx env ctx h w = Some (commit_and_check env h w)"
  by (simp add: waitForTx_def)

lemma timer_for_mono: "timer_for env ctx k w \<Longrightarrow> j \<le> k \<Longrightarrow> timer_for env ctx j w"
  by (simp add: timer_for_def)

lemma not_found_for_mono: "not_found_for env h k w \<Longrightarrow> j \<le> k \<Longrightarrow> not_found_for env h j w"
  by (simp add: not_found_for_def)

lemma poll_answer:
  assumes "not_found_for env h k w" and "timer_for env ctx (Suc k) w"
    and "transactionReceipt env h (queries w + k) \<noteq> Inl NotFound"
  shows "poll env ctx h w =
     Some (found env (transactionReceipt env h (queries w + k)), rounds env h (Suc k) w)"
proof -
  from assms(2) have "timer_for env ctx k w"
    by (rule timer_for_mono) simp
  with assms(1) have "poll env ctx h w = poll env ctx h (rounds env h k w)"
    by (rule poll_rounds)
  also have "\<dots> = Some (found env (transactionReceipt env h (queries (rounds env h k w))),
      rounds env h 1 (rounds env h k w))"
    using assms(2,3)
    by (intro poll_settle) (simp_all add: select_done_rounds queries_rounds timer_for_def)
  finally show ?thesis
    by (simp add: queries_rounds rounds_rounds)
qed

lemma poll_cancelled:
  assumes "not_found_for env h k w" and "timer_for env ctx k w"
    and "select_done env ctx (w\<lparr>now := now w + 4 * k\<rparr>)"
  shows "poll env ctx h w = Some (Some (ctx_Err ctx), after_done ctx (rounds env h k w))"
proof -
  from assms(1,2) have "poll env ctx h w = poll env ctx h (rounds env h k w)"
    by (rule poll_rounds)
  also from assms(3) have "\<dots> = Some (Some (ctx_Err ctx), after_done ctx (rounds env h k w))"
    by (intro poll_done) (simp add: select_done_rounds)
  finally show ?thesis .
qed

lemma first_done:
  "\<not> timer_for env ctx n w \<Longrightarrow>
     \<exists>j<n. timer_for env ctx j w \<and> select_done env ctx (w\<lparr>now := now w + 4 * j\<rparr>)"
proof (induction n)
  case 0
  then show ?case by (simp add: timer_for_def)
next
  case (Suc n)
  show ?case
  proof (cases "timer_for env ctx n w")
    case True
    with Suc.prems have "select_done env ctx (w\<lparr>now := now w + 4 * n\<rparr>)"
      by (auto simp add: timer_for_def less_Suc_eq)
    with True show ?thesis by blast
  next
    case False
    from Suc.IH [OF this] show ?thesis
      using less_Suc_eq by blast
  qed
qed

lemma timer_for_until:
  assumes "done_at ctx = Some c"
  shows "timer_for env ctx (rounds_until env c w) w"
  unfolding timer_for_def
proof (intro allI impI)
  fix i assume "i < rounds_until env c w"
  then have "now w + 4 * i + 4 < c \<or> (now w + 4 * i + 4 = c \<and> timer_first env)"
    by (auto simp add: rounds_until_def split: if_splits)
  with assms show "\<not> select_done env ctx (w\<lparr>now := now w + 4 * i\<rparr>)"
    by (auto simp add: select_done_def)
qed

lemma done_at_until:
  assumes "done_at ctx = Some c"
  shows "select_done env ctx (w\<lparr>now := now w + 4 * rounds_until env c w\<rparr>)"
proof -
  have "c < now w + 4 * rounds_until env c w + 4 \<or>
        (c = now w + 4 * rounds_until env c w + 4 \<and> \<not> timer_first env)"
    by (auto simp add: rounds_until_def)
  with assms show ?thesis
    by (auto simp add: select_done_def)
qed

lemma until_before: "now w + 4 * rounds_until env c w \<le> max (now w) c"
  by (auto simp add: rounds_until_def)


lemma now_after_done: "done_at ctx = Some c \<Longrightarrow> now (after_done ctx w) = max (now w) c"
  by (simp add: after_done_def record_call_def)

lemma queries_after_done: "queries (after_done ctx w) = queries w"
  by (simp add: after_done_def record_call_def)

subsection \<open>The claims on waitForTx\<close>

text \<open>
  C9. With a backend that has \<^verbatim>\<open>Commit()\<close>, the wait returns at once: it logs one
  \<^verbatim>\<open>Commit\<close> and one receipt query and nothing else, the clock does not move, and
  the result is the error of the query, or the tx-failed error of a receipt whose status is
  not successful, or \<^verbatim>\<open>nil\<close>.
\<close>

theorem commit_single_check:
  assumes "commiter env"
  shows "waitForTx env ctx txHash w =
     Some (case transactionReceipt env txHash (queries w) of
             Inl err \<Rightarrow> Some err
           | Inr tr \<Rightarrow>
               if Status tr \<noteq> ReceiptStatusSuccessful env
               then Some (Errorf ''tx failed: %+v'' [AReceipt tr]) else None,
           w\<lparr>queries := queries w + 1,
             trace := trace w @
               [Entry Commit None,
                Entry (TransactionReceipt txHash)
                  (found env (transactionReceipt env txHash (queries w)))]\<rparr>)"
  using assms
  by (simp add: waitForTx_commit commit_and_check_eq found_def check_status_def split: sum.splits)

theorem commit_single_check_witness:
  "commiter (mock True (\<lambda>n. Inr reverted) 0 0) \<and>
   waitForTx (mock True (\<lambda>n. Inr reverted) 0 0) background 7 start =
     Some (Some (Errorf ''tx failed: %+v'' [AReceipt reverted]),
           \<lparr>now = 0, queries = 1, sent = 0,
            trace = [Entry Commit None,
                     Entry (TransactionReceipt 7) (Some (Errorf ''tx failed: %+v'' [AReceipt reverted]))]\<rparr>)"
  using commit_single_check [of "mock True (\<lambda>n. Inr reverted) 0 0" background 7 start]
  by (simp add: mock_def start_def reverted_def found_def check_status_def)

text \<open>
  C7. When the answer to a receipt query is a receipt whose status is not the successful
  one, the wait returns the tx-failed error made from that receipt, and that query is the
  last one: with \<^verbatim>\<open>Commit()\<close> it is the only query; in the loop, after \<open>k\<close> answers of
  not found, it is query \<open>k + 1\<close> and the world is the one after \<open>k + 1\<close> rounds.
\<close>

theorem failed_receipt_ends_wait:
  assumes "transactionReceipt env txHash (queries w + k) = Inr tr"
    and "Status tr \<noteq> ReceiptStatusSuccessful env"
  shows "(commiter env \<and> k = 0 \<longrightarrow>
            waitForTx env ctx txHash w =
              Some (Some (Errorf ''tx failed: %+v'' [AReceipt tr]),
                    w\<lparr>queries := queries w + 1,
                      trace := trace w @
                        [Entry Commit None,
                         Entry (TransactionReceipt txHash)
                           (Some (Errorf ''tx failed: %+v'' [AReceipt tr]))]\<rparr>)) \<and>
         (\<not> commiter env \<and> not_found_for env txHash k w \<and> timer_for env ctx (Suc k) w \<longrightarrow>
            waitForTx env ctx txHash w =
              Some (Some (Errorf ''tx failed: %+v'' [AReceipt tr]), rounds env txHash (Suc k) w) \<and>
            queries (rounds env txHash (Suc k) w) = queries w + k + 1)"
proof (intro conjI impI)
  assume "commiter env \<and> k = 0"
  with assms show "waitForTx env ctx txHash w =
      Some (Some (Errorf ''tx failed: %+v'' [AReceipt tr]),
            w\<lparr>queries := queries w + 1,
              trace := trace w @
                [Entry Commit None,
                 Entry (TransactionReceipt txHash)
                   (Some (Errorf ''tx failed: %+v'' [AReceipt tr]))]\<rparr>)"
    by (simp add: waitForTx_commit commit_and_check_eq found_def check_status_def)
next
  assume a: "\<not> commiter env \<and> not_found_for env txHash k w \<and> timer_for env ctx (Suc k) w"
  with assms have "poll env ctx txHash w =
      Some (found env (transactionReceipt env txHash (queries w + k)), rounds env txHash (Suc k) w)"
    by (intro poll_answer) simp_all
  with a assms show "waitForTx env ctx txHash w =
      Some (Some (Errorf ''tx failed: %+v'' [AReceipt tr]), rounds env txHash (Suc k) w)"
    by (simp add: waitForTx_poll found_def check_status_def)
next
  show "queries (rounds env txHash (Suc k) w) = queries w + k + 1"
    by (simp add: queries_rounds)
qed

theorem failed_receipt_ends_wait_witness:
  "waitForTx (mock True (\<lambda>n. Inr reverted) 0 0) background 7 start =
     Some (Some (Errorf ''tx failed: %+v'' [AReceipt reverted]),
           \<lparr>now = 0, queries = 1, sent = 0,
            trace = [Entry Commit None,
                     Entry (TransactionReceipt 7) (Some (Errorf ''tx failed: %+v'' [AReceipt reverted]))]\<rparr>) \<and>
   waitForTx (mock False (after_not_found 1 (Inr reverted)) 0 0) background 7 start =
     Some (Some (Errorf ''tx failed: %+v'' [AReceipt reverted]),
           \<lparr>now = 8, queries = 2, sent = 0,
            trace = [Entry After4 None, Entry (TransactionReceipt 7) (Some NotFound),
                     Entry After4 None,
                     Entry (TransactionReceipt 7) (Some (Errorf ''tx failed: %+v'' [AReceipt reverted]))]\<rparr>)"
  using failed_receipt_ends_wait [of "mock True (\<lambda>n. Inr reverted) 0 0" 7 start 0 reverted background]
    failed_receipt_ends_wait [of "mock False (after_not_found 1 (Inr reverted)) 0 0" 7 start 1 reverted background]
  by (simp add: mock_def start_def reverted_def background_def after_not_found_def not_found_for_def
      timer_for_def select_done_def rounds_def round_entries_def found_def check_status_def
      less_Suc_eq upt_conv_Cons)

text \<open>
  C8. In the loop, answers of not found leave the wait pending: after \<open>j\<close> of them the wait
  is the wait started in the world \<open>4 * j\<close> time-units and \<open>j\<close> queries later. Any other
  error returned by a query ends the wait with that very error, and the query that returned
  it is the last one.
\<close>

theorem other_error_ends_wait:
  assumes "\<not> commiter env"
    and "not_found_for env txHash k w"
    and "timer_for env ctx (Suc k) w"
    and "transactionReceipt env txHash (queries w + k) = Inl err"
    and "err \<noteq> NotFound"
  shows "(\<forall>j\<le>k. waitForTx env ctx txHash w = waitForTx env ctx txHash (rounds env txHash j w)) \<and>
         waitForTx env ctx txHash w = Some (Some err, rounds env txHash (Suc k) w) \<and>
         queries (rounds env txHash (Suc k) w) = queries w + k + 1"
proof (intro conjI allI impI)
  fix j assume "j \<le> k"
  with assms(2,3) have "not_found_for env txHash j w" and "timer_for env ctx j w"
    by (auto intro: not_found_for_mono timer_for_mono)
  then have "poll env ctx txHash w = poll env ctx txHash (rounds env txHash j w)"
    by (rule poll_rounds)
  with assms(1) show "waitForTx env ctx txHash w = waitForTx env ctx txHash (rounds env txHash j w)"
    by (simp add: waitForTx_poll)
next
  from assms have "poll env ctx txHash w =
      Some (found env (transactionReceipt env txHash (queries w + k)), rounds env txHash (Suc k) w)"
    by (intro poll_answer) simp_all
  with assms show "waitForTx env ctx txHash w = Some (Some err, rounds env txHash (Suc k) w)"
    by (simp add: waitForTx_poll found_def)
next
  show "queries (rounds env txHash (Suc k) w) = queries w + k + 1"
    by (simp add: queries_rounds)
qed

theorem other_error_ends_wait_witness:
  "waitForTx (mock False (after_not_found 2 (Inl (External ''connection refused''))) 0 0)
     background 7 start =
     Some (Some (External ''connection refused''),
           \<lparr>now = 12, queries = 3, sent = 0,
            trace = [Entry After4 None, Entry (TransactionReceipt 7) (Some NotFound),
                     Entry After4 None, Entry (TransactionReceipt 7) (Some NotFound),
                     Entry After4 None,
                     Entry (TransactionReceipt 7) (Some (External ''connection refused''))]\<rparr>)"
  using other_error_ends_wait
    [of "mock False (after_not_found 2 (Inl (External ''connection refused''))) 0 0" 7 2 start
       background "External ''connection refused''"]
  by (simp add: mock_def start_def background_def after_not_found_def not_found_for_def
      timer_for_def select_done_def rounds_def round_entries_def found_def
      less_Suc_eq upt_conv_Cons)

text \<open>
  C4, as the code has it. The loop waits before every query, the first one too: with not
  found on the first two queries and a successful receipt on the third, the wait returns
  \<^verbatim>\<open>nil\<close> when three intervals of 4 time-units have passed, not two.
\<close>

theorem confirmed_after_three_intervals:
  assumes "\<not> commiter env"
    and "transactionReceipt env txHash (queries w) = Inl NotFound"
    and "transactionReceipt env txHash (queries w + 1) = Inl NotFound"
    and "transactionReceipt env txHash (queries w + 2) = Inr tr"
    and "Status tr = ReceiptStatusSuccessful env"
    and "timer_for env ctx 3 w"
  shows "waitForTx env ctx txHash w = Some (None, rounds env txHash 3 w) \<and>
         now (rounds env txHash 3 w) = now w + 3 * 4"
proof -
  from assms(2,3) have "not_found_for env txHash 2 w"
    by (simp add: not_found_for_def less_Suc_eq numeral_2_eq_2)
  moreover from assms(6) have "timer_for env ctx (Suc 2) w"
    by (simp add: numeral_3_eq_3 numeral_2_eq_2)
  moreover from assms(4) have "transactionReceipt env txHash (queries w + 2) \<noteq> Inl NotFound"
    by simp
  ultimately have "poll env ctx txHash w =
      Some (found env (transactionReceipt env txHash (queries w + 2)), rounds env txHash (Suc 2) w)"
    by (rule poll_answer)
  with assms(1,4,5) show ?thesis
    by (simp add: waitForTx_poll found_def check_status_def now_rounds numeral_3_eq_3 numeral_2_eq_2)
qed

theorem confirmed_after_three_intervals_witness:
  "waitForTx (mock False (after_not_found 2 (Inr good)) 0 0) background 7 start =
     Some (None,
           \<lparr>now = 12, queries = 3, sent = 0,
            trace = [Entry After4 None, Entry (TransactionReceipt 7) (Some NotFound),
                     Entry After4 None, Entry (TransactionReceipt 7) (Some NotFound),
                     Entry After4 None, Entry (TransactionReceipt 7) None]\<rparr>)"
  using confirmed_after_three_intervals
    [of "mock False (after_not_found 2 (Inr good)) 0 0" 7 start good background]
  by (simp add: mock_def start_def background_def good_def after_not_found_def
      timer_for_def select_done_def rounds_def round_entries_def found_def check_status_def
      less_Suc_eq upt_conv_Cons numeral_3_eq_3)

text \<open>
  C4 as stated fails: on the backend of the claim the wait does not return with two
  intervals (8 time-units) on the clock.
\<close>

theorem two_intervals_counterexample:
  "\<not> (\<exists>w'. waitForTx (mock False (after_not_found 2 (Inr good)) 0 0) background 7 start =
              Some (None, w') \<and> now w' = now start + 2 * 4)"
proof -
  have nf: "not_found_for (mock False (after_not_found 2 (Inr good)) 0 0) 7 2 start"
    by (simp add: not_found_for_def mock_def after_not_found_def start_def)
  have tf: "timer_for (mock False (after_not_found 2 (Inr good)) 0 0) background (Suc 2) start"
    by (simp add: timer_for_def select_done_def background_def)
  have ans: "transactionReceipt (mock False (after_not_found 2 (Inr good)) 0 0) 7 (queries start + 2)
      \<noteq> Inl NotFound"
    by (simp add: mock_def after_not_found_def start_def)
  have "waitForTx (mock False (after_not_found 2 (Inr good)) 0 0) background 7 start =
      poll (mock False (after_not_found 2 (Inr good)) 0 0) background 7 start"
    by (simp add: waitForTx_def mock_def)
  also note poll_answer [OF nf tf ans]
  finally show ?thesis
    by (simp add: now_rounds start_def)
qed

text \<open>
  C10. Without \<^verbatim>\<open>Commit()\<close>, a wait that returns leaves the world of some number of
  whole rounds, each a 4-unit timer followed by one query, with at most the receive from the
  context after them: no query comes before the first timer. So when the answers are \<open>k\<close>
  times not found and then a receipt, either the timer is received \<open>k + 1\<close> times and the
  wait returns what the receipt says, \<open>4 * (k + 1)\<close> time-units after it began, or the
  context is received in one of these rounds and the wait returns its error.
\<close>

theorem receipt_after_intervals:
  assumes "\<not> commiter env"
  shows "(\<forall>r w'. waitForTx env ctx txHash w = Some (r, w') \<longrightarrow>
            (\<exists>m. w' = rounds env txHash m w \<or> w' = after_done ctx (rounds env txHash m w))) \<and>
         (not_found_for env txHash k w \<and> transactionReceipt env txHash (queries w + k) = Inr tr \<longrightarrow>
            (if timer_for env ctx (Suc k) w
             then waitForTx env ctx txHash w =
                    Some (check_status env tr, rounds env txHash (Suc k) w) \<and>
                  now (rounds env txHash (Suc k) w) = now w + 4 * (k + 1)
             else \<exists>j\<le>k. waitForTx env ctx txHash w =
                           Some (Some (ctx_Err ctx), after_done ctx (rounds env txHash j w))))"
proof (intro conjI allI impI)
  fix r w'
  assume "waitForTx env ctx txHash w = Some (r, w')"
  with assms have "poll env ctx txHash w = Some (r, w')"
    by (simp add: waitForTx_poll)
  then obtain m where "ends_after env ctx txHash w m (r, w')"
    using poll_returns by blast
  then have "last_round env ctx txHash (rounds env txHash m w) = Some (r, w')"
    by (simp add: ends_after_def)
  then have "w' = after_done ctx (rounds env txHash m w) \<or> w' = rounds env txHash (m + 1) w"
    by (auto simp add: last_round_def rounds_rounds split: if_splits)
  then show "\<exists>m. w' = rounds env txHash m w \<or> w' = after_done ctx (rounds env txHash m w)"
    by blast
next
  assume a: "not_found_for env txHash k w \<and> transactionReceipt env txHash (queries w + k) = Inr tr"
  show "if timer_for env ctx (Suc k) w
        then waitForTx env ctx txHash w =
               Some (check_status env tr, rounds env txHash (Suc k) w) \<and>
             now (rounds env txHash (Suc k) w) = now w + 4 * (k + 1)
        else \<exists>j\<le>k. waitForTx env ctx txHash w =
                      Some (Some (ctx_Err ctx), after_done ctx (rounds env txHash j w))"
  proof (cases "timer_for env ctx (Suc k) w")
    case True
    with a have "poll env ctx txHash w =
        Some (found env (transactionReceipt env txHash (queries w + k)), rounds env txHash (Suc k) w)"
      by (intro poll_answer) simp_all
    with a assms True show ?thesis
      by (simp add: waitForTx_poll found_def now_rounds)
  next
    case False
    then obtain j where j: "j < Suc k" "timer_for env ctx j w"
      "select_done env ctx (w\<lparr>now := now w + 4 * j\<rparr>)"
      using first_done by blast
    from a j(1) have "not_found_for env txHash j w"
      by (auto intro: not_found_for_mono)
    with j(2,3) have "poll env ctx txHash w =
        Some (Some (ctx_Err ctx), after_done ctx (rounds env txHash j w))"
      by (intro poll_cancelled)
    moreover from j(1) have "j \<le> k"
      by simp
    ultimately have "\<exists>j\<le>k. waitForTx env ctx txHash w =
        Some (Some (ctx_Err ctx), after_done ctx (rounds env txHash j w))"
      using assms by (intro exI [of _ j]) (simp add: waitForTx_poll)
    with False show ?thesis
      by simp
  qed
qed

theorem receipt_after_intervals_witness:
  "\<not> commiter (mock False (after_not_found 1 (Inr good)) 0 0) \<and>
   waitForTx (mock False (after_not_found 1 (Inr good)) 0 0) background 7 start =
     Some (None,
           \<lparr>now = 8, queries = 2, sent = 0,
            trace = [Entry After4 None, Entry (TransactionReceipt 7) (Some NotFound),
                     Entry After4 None, Entry (TransactionReceipt 7) None]\<rparr>)"
proof -
  let ?env = "mock False (after_not_found 1 (Inr good)) 0 0"
  have c: "\<not> commiter ?env"
    by (simp add: mock_def)
  have a: "not_found_for ?env 7 1 start \<and> transactionReceipt ?env 7 (queries start + 1) = Inr good"
    by (simp add: not_found_for_def mock_def after_not_found_def start_def)
  have t: "timer_for ?env background (Suc 1) start"
    by (simp add: timer_for_def select_done_def background_def)
  have w: "rounds ?env 7 (Suc 1) start =
      \<lparr>now = 8, queries = 2, sent = 0,
       trace = [Entry After4 None, Entry (TransactionReceipt 7) (Some NotFound),
                Entry After4 None, Entry (TransactionReceipt 7) None]\<rparr>"
    by (simp add: rounds_def round_entries_def mock_def start_def found_def check_status_def
        good_def after_not_found_def upt_conv_Cons)
  have s: "check_status ?env good = None"
    by (simp add: check_status_def mock_def good_def)
  from receipt_after_intervals [OF c, of background 7 start 1 good] a t
  have "waitForTx ?env background 7 start = Some (check_status ?env good, rounds ?env 7 (Suc 1) start)"
    by simp
  with c w s show ?thesis
    by simp
qed

text \<open>
  C6. Without \<^verbatim>\<open>Commit()\<close>, with a context that is done at \<open>c\<close> and answers of not
  found to the queries made until then, the wait returns \<^verbatim>\<open>ctx.Err()\<close>. The clock
  then stands at \<open>c\<close> (or where it stood, if the context was done before the wait began):
  the interval under way is cut short. Each query was made at a time not after \<open>c\<close>, and
  the receive from the context is the last entry of the log.
\<close>

theorem cancelled_wait:
  assumes "\<not> commiter env"
    and "done_at ctx = Some c"
    and "not_found_for env txHash (rounds_until env c w) w"
  shows "waitForTx env ctx txHash w =
           Some (Some (ctx_Err ctx), after_done ctx (rounds env txHash (rounds_until env c w) w)) \<and>
         now (after_done ctx (rounds env txHash (rounds_until env c w) w)) = max (now w) c \<and>
         queries (after_done ctx (rounds env txHash (rounds_until env c w) w)) =
           queries w + rounds_until env c w \<and>
         (\<forall>i<rounds_until env c w. now w + 4 * (i + 1) \<le> c) \<and>
         last (trace (after_done ctx (rounds env txHash (rounds_until env c w) w))) =
           Entry CtxDone (Some (ctx_Err ctx))"
proof (intro conjI allI impI)
  from assms(2) have "timer_for env ctx (rounds_until env c w) w"
    and "select_done env ctx (w\<lparr>now := now w + 4 * rounds_until env c w\<rparr>)"
    by (rule timer_for_until, rule done_at_until)
  with assms(3) have "poll env ctx txHash w =
      Some (Some (ctx_Err ctx), after_done ctx (rounds env txHash (rounds_until env c w) w))"
    by (intro poll_cancelled)
  with assms(1) show "waitForTx env ctx txHash w =
      Some (Some (ctx_Err ctx), after_done ctx (rounds env txHash (rounds_until env c w) w))"
    by (simp add: waitForTx_poll)
next
  have "max (now w + 4 * rounds_until env c w) c = max (now w) c"
    by (auto simp add: rounds_until_def max_def)
  with assms(2) show "now (after_done ctx (rounds env txHash (rounds_until env c w) w)) = max (now w) c"
    by (simp add: now_after_done now_rounds)
next
  show "queries (after_done ctx (rounds env txHash (rounds_until env c w) w)) =
      queries w + rounds_until env c w"
    by (simp add: queries_after_done queries_rounds)
next
  fix i assume "i < rounds_until env c w"
  then show "now w + 4 * (i + 1) \<le> c"
    by (auto simp add: rounds_until_def split: if_splits)
next
  show "last (trace (after_done ctx (rounds env txHash (rounds_until env c w) w))) =
      Entry CtxDone (Some (ctx_Err ctx))"
    by (simp add: after_done_def record_call_def)
qed

theorem cancelled_wait_witness:
  "\<not> commiter (mock False (\<lambda>n. Inl NotFound) 0 0) \<and>
   done_at (deadline 9) = Some 9 \<and>
   waitForTx (mock False (\<lambda>n. Inl NotFound) 0 0) (deadline 9) 7 start =
     Some (Some DeadlineExceeded,
           \<lparr>now = 9, queries = 2, sent = 0,
            trace = [Entry After4 None, Entry (TransactionReceipt 7) (Some NotFound),
                     Entry After4 None, Entry (TransactionReceipt 7) (Some NotFound),
                     Entry CtxDone (Some DeadlineExceeded)]\<rparr>)"
proof -
  let ?env = "mock False (\<lambda>n. Inl NotFound) 0 0"
  have c: "\<not> commiter ?env"
    by (simp add: mock_def)
  have d: "done_at (deadline 9) = Some 9"
    by (simp add: deadline_def)
  have u: "rounds_until ?env 9 start = 2"
    by (simp add: rounds_until_def mock_def start_def)
  have a: "not_found_for ?env 7 (rounds_until ?env 9 start) start"
    by (simp add: not_found_for_def mock_def)
  have w: "after_done (deadline 9) (rounds ?env 7 2 start) =
      \<lparr>now = 9, queries = 2, sent = 0,
       trace = [Entry After4 None, Entry (TransactionReceipt 7) (Some NotFound),
                Entry After4 None, Entry (TransactionReceipt 7) (Some NotFound),
                Entry CtxDone (Some DeadlineExceeded)]\<rparr>"
    by (simp add: after_done_def record_call_def rounds_def round_entries_def mock_def start_def
        found_def deadline_def upt_conv_Cons)
  from cancelled_wait [OF c d a]
  have "waitForTx ?env (deadline 9) 7 start =
      Some (Some (ctx_Err (deadline 9)), after_done (deadline 9) (rounds ?env 7 2 start))"
    by (simp add: u)
  with c d w show ?thesis
    by (simp add: deadline_def)
qed

subsection \<open>Lemmas on the log\<close>

lemma submissions_Nil: "submissions [] = []"
  by (simp add: submissions_def)

lemma submissions_append: "submissions (es @ fs) = submissions es @ submissions fs"
  by (simp add: submissions_def)

lemma submissions_single: "submissions [Entry c r] = (if submission c then [c] else [])"
  by (simp add: submissions_def)

lemma stretch_refl: "stretch env w ok w []"
  by (simp add: stretch_def submissions_def)

lemma stretch_weaken: "stretch env w True w' cs \<Longrightarrow> stretch env w ok w' cs"
  by (auto simp add: stretch_def)

lemma stretch_trans:
  assumes "stretch env w True w1 cs" and "stretch env w1 ok w2 ds"
  shows "stretch env w ok w2 (cs @ ds)"
proof -
  from assms(1) obtain es where es: "trace w1 = trace w @ es" "submissions es = cs"
    "\<forall>e\<in>set es. \<not> failure env e"
    by (auto simp add: stretch_def)
  from assms(2) obtain fs where fs: "trace w2 = trace w1 @ fs" "submissions fs = ds"
    "\<forall>e\<in>set (butlast fs). \<not> failure env e" "ok \<longrightarrow> (\<forall>e\<in>set fs. \<not> failure env e)"
    by (auto simp add: stretch_def)
  have "\<forall>e\<in>set (butlast (es @ fs)). \<not> failure env e"
  proof (cases "fs = []")
    case True
    with es(3) show ?thesis
      by (auto dest: in_set_butlastD)
  next
    case False
    with es(3) fs(3) show ?thesis
      by (auto simp add: butlast_append)
  qed
  with es fs show ?thesis
    unfolding stretch_def
    by (intro exI [of _ "es @ fs"]) (auto simp add: submissions_append)
qed

lemma stretch_record:
  "stretch env w (\<not> failure env (Entry c r)) (record_call c r w) (if submission c then [c] else [])"
  unfolding stretch_def
  by (intro exI [of _ "[Entry c r]"]) (simp add: record_call_def submissions_single)

lemma stretch_submit:
  "stretch env w (\<not> failure env (Entry c (err_of r))) (submit c r w) (if submission c then [c] else [])"
  unfolding stretch_def
  by (intro exI [of _ "[Entry c (err_of r)]"]) (simp add: submit_def record_call_def submissions_single)

lemma sent_submit: "sent (submit c r w) = sent w + 1"
  by (simp add: submit_def record_call_def)

lemma sent_record_call: "sent (record_call c r w) = sent w"
  by (simp add: record_call_def)

lemma found_not_found:
  "found env a = Some NotFound \<longleftrightarrow> a = Inl NotFound"
  by (cases a) (auto simp add: found_def check_status_def)

lemma stretch_rounds:
  assumes "\<not> commiter env" and "not_found_for env h k w"
  shows "stretch env w True (rounds env h k w) []"
  using assms(2)
proof (induction k)
  case 0
  then show ?case
    by (simp add: rounds_0 stretch_refl)
next
  case (Suc k)
  then have nf: "transactionReceipt env h (queries w + k) = Inl NotFound"
    by (simp add: not_found_for_def)
  from Suc have "stretch env w True (rounds env h k w) []"
    by (simp add: not_found_for_def)
  moreover have "stretch env (rounds env h k w) True (rounds env h 1 (rounds env h k w)) []"
    unfolding stretch_def
    using assms(1) nf
    by (intro exI [of _ "round_entries env h (queries w + k)"])
       (simp add: rounds_def round_entries_def submissions_def found_def)
  ultimately have "stretch env w True (rounds env h 1 (rounds env h k w)) ([] @ [])"
    by (rule stretch_trans)
  then show ?case
    by (simp add: rounds_rounds)
qed

lemma stretch_last_round:
  assumes "\<not> commiter env" and "last_round env ctx h w = Some (r, w')"
  shows "stretch env w (r = None) w' []"
proof (cases "select_done env ctx w")
  case True
  with assms(2) have "r = Some (ctx_Err ctx)" and "w' = after_done ctx w"
    by (simp_all add: last_round_def)
  then show ?thesis
    unfolding stretch_def
    by (intro exI [of _ "[Entry CtxDone (Some (ctx_Err ctx))]"])
       (simp add: after_done_def record_call_def submissions_def)
next
  case False
  with assms(2) have a: "transactionReceipt env h (queries w) \<noteq> Inl NotFound"
    and r: "r = found env (transactionReceipt env h (queries w))"
    and w': "w' = rounds env h 1 w"
    by (simp_all add: last_round_def split: if_splits)
  from a r have "r \<noteq> Some NotFound"
    by (simp add: found_not_found)
  with r w' show ?thesis
    unfolding stretch_def
    by (intro exI [of _ "round_entries env h (queries w)"])
       (auto simp add: rounds_def round_entries_def submissions_def)
qed

lemma sent_last_round: "last_round env ctx h w = Some (r, w') \<Longrightarrow> sent w' = sent w"
  by (auto simp add: last_round_def after_done_def record_call_def rounds_def split: if_splits)

lemma stretch_commit: "commiter env \<Longrightarrow>
    stretch env w (fst (commit_and_check env h w) = None) (snd (commit_and_check env h w)) []"
  unfolding stretch_def commit_and_check_eq
  by (intro exI [of _ "[Entry Commit None,
        Entry (TransactionReceipt h) (found env (transactionReceipt env h (queries w)))]"])
     (auto simp add: submissions_def)

text \<open>A wait adds no submission, and fails only in its last entry.\<close>

lemma stretch_wait:
  assumes "waitForTx env ctx h w = Some (r, w')"
  shows "stretch env w (r = None) w' [] \<and> sent w' = sent w"
proof (cases "commiter env")
  case True
  with assms have "commit_and_check env h w = (r, w')"
    by (simp add: waitForTx_commit)
  with stretch_commit [OF True, of w h] show ?thesis
    by (auto simp add: commit_and_check_eq)
next
  case False
  with assms have "poll env ctx h w = Some (r, w')"
    by (simp add: waitForTx_poll)
  then obtain k where "ends_after env ctx h w k (r, w')"
    using poll_returns by blast
  then have nf: "not_found_for env h k w"
    and l: "last_round env ctx h (rounds env h k w) = Some (r, w')"
    by (simp_all add: ends_after_def)
  from False nf have "stretch env w True (rounds env h k w) []"
    by (rule stretch_rounds)
  moreover from False l have "stretch env (rounds env h k w) (r = None) w' []"
    by (rule stretch_last_round)
  ultimately have "stretch env w (r = None) w' ([] @ [])"
    by (rule stretch_trans)
  moreover have "sent w' = sent w"
    using sent_last_round [OF l] by (simp add: sent_rounds)
  ultimately show ?thesis
    by simp
qed

lemma stretch_submit_ok:
  "submission c \<Longrightarrow> stretch env w True (submit c (Inr txn) w) [c]"
  using stretch_submit [of env w c "Inr txn"] by simp

lemma stretch_submit_failed:
  "submission c \<Longrightarrow> stretch env w False (submit c (Inl e) w) [c]"
  using stretch_submit [of env w c "Inl e"] by (cases c) simp_all

text \<open>A submission that is accepted, and the wait for it.\<close>

lemma stretch_submit_wait:
  assumes "submission c" and "waitForTx env ctx txn (submit c (Inr txn) w) = Some (r, w')"
  shows "stretch env w (r = None) w' [c]" and "sent w' = sent w + 1"
proof -
  from assms(2) have "stretch env (submit c (Inr txn) w) (r = None) w' []"
    and s: "sent w' = sent (submit c (Inr txn) w)"
    using stretch_wait by blast+
  with stretch_submit_ok [OF assms(1), of env w txn]
  have "stretch env w (r = None) w' ([c] @ [])"
    by (intro stretch_trans)
  then show "stretch env w (r = None) w' [c]"
    by simp
  from s show "sent w' = sent w + 1"
    by (simp add: sent_submit)
qed

lemma vouchers_stretch:
  assumes "vouchers env ctx ev a k w = Some (r, w')"
  shows "\<exists>n. stretch env w (\<not> isl r) w'
           (take n [SellVouchers (NewKeyedTransactor k), BuyVouchers (NewKeyedTransactor k)]) \<and>
         (\<not> isl r \<longrightarrow>
            n = 2 \<and> r = Inr (''Token holder event successfully called at '' @ Time ev @ ''!''))"
proof -
  let ?A = "NewKeyedTransactor k"
  let ?w1 = "record_call (NewContract a) (newContract env a) w"
  show ?thesis
  proof (cases "newContract env a")
    case (Some err)
    with assms have "w' = ?w1" and "isl r"
      by (auto simp add: vouchers_def formatError_def Let_def)
    moreover have "stretch env w False ?w1 []"
      using stretch_record [of env w "NewContract a" "newContract env a"] Some by simp
    ultimately show ?thesis
      by (intro exI [of _ 0]) simp
  next
    case None
    then have s1: "stretch env w True ?w1 []"
      using stretch_record [of env w "NewContract a" "newContract env a"] by simp
    let ?sell = "sellVouchers env (sent ?w1) ?A"
    let ?w2 = "submit (SellVouchers ?A) ?sell ?w1"
    show ?thesis
    proof (cases ?sell)
      case (Inl err)
      with assms None have "w' = ?w2" and "isl r"
        by (auto simp add: vouchers_def formatError_def Let_def)
      moreover have "stretch env w False (submit (SellVouchers ?A) (Inl err) ?w1)
          ([] @ [SellVouchers ?A])"
        by (rule stretch_trans [OF s1 stretch_submit_failed]) simp
      ultimately have "w' = submit (SellVouchers ?A) (Inl err) ?w1" and "isl r"
        and "stretch env w False (submit (SellVouchers ?A) (Inl err) ?w1) [SellVouchers ?A]"
        using Inl by simp_all
      then show ?thesis
        by (intro exI [of _ 1]) simp
    next
      case sell: (Inr txn)
      with assms None obtain r1 w3 where wait1: "waitForTx env ctx txn ?w2 = Some (r1, w3)"
        by (cases "waitForTx env ctx txn ?w2") (auto simp add: vouchers_def Let_def)
      with sell have "stretch env ?w1 (r1 = None) w3 [SellVouchers ?A]"
        by (intro stretch_submit_wait [where txn = txn and ctx = ctx]) simp_all
      with s1 have s3: "stretch env w (r1 = None) w3 ([] @ [SellVouchers ?A])"
        by (rule stretch_trans)
      show ?thesis
      proof (cases r1)
        case (Some err)
        with assms None sell wait1 have "w' = w3" and "isl r"
          by (auto simp add: vouchers_def formatError_def Let_def)
        with s3 Some show ?thesis
          by (intro exI [of _ 1]) simp
      next
        case r1: None
        let ?buy = "buyVouchers env (sent w3) ?A"
        let ?w4 = "submit (BuyVouchers ?A) ?buy w3"
        from s3 r1 have s3': "stretch env w True w3 [SellVouchers ?A]"
          by simp
        show ?thesis
        proof (cases ?buy)
          case (Inl err)
          with assms None sell wait1 r1 have "w' = ?w4" and "isl r"
            by (auto simp add: vouchers_def formatError_def Let_def)
          moreover have "stretch env w False (submit (BuyVouchers ?A) (Inl err) w3)
              ([SellVouchers ?A] @ [BuyVouchers ?A])"
            by (rule stretch_trans [OF s3' stretch_submit_failed]) simp
          ultimately have "w' = submit (BuyVouchers ?A) (Inl err) w3" and "isl r"
            and "stretch env w False (submit (BuyVouchers ?A) (Inl err) w3)
              [SellVouchers ?A, BuyVouchers ?A]"
            using Inl by simp_all
          then show ?thesis
            by (intro exI [of _ 2]) simp
        next
          case buy: (Inr txn')
          with assms None sell wait1 r1 obtain r2 w5
            where wait2: "waitForTx env ctx txn' ?w4 = Some (r2, w5)"
            by (cases "waitForTx env ctx txn' ?w4") (auto simp add: vouchers_def Let_def)
          with buy have "stretch env w3 (r2 = None) w5 [BuyVouchers ?A]"
            by (intro stretch_submit_wait [where txn = txn' and ctx = ctx]) simp_all
          with s3' have s5: "stretch env w (r2 = None) w5 ([SellVouchers ?A] @ [BuyVouchers ?A])"
            by (rule stretch_trans)
          from assms None sell wait1 r1 buy wait2 have "w' = w5" and "isl r \<longleftrightarrow> r2 \<noteq> None"
            and "\<not> isl r \<longrightarrow> r = Inr (''Token holder event successfully called at '' @ Time ev @ ''!'')"
            by (auto simp add: vouchers_def formatError_def Let_def split: option.splits)
          with s5 show ?thesis
            by (intro exI [of _ 2]) simp
        qed
      qed
    qed
  qed
qed

lemma transfers_stretch:
  assumes "transfers env ctx ev k1 k2 a1 a2 P nb w = Some (r, w')"
  shows "\<exists>n>0. stretch env w (\<not> isl r) w'
           (take n
             [Transfer \<lparr>Signer = k1, GasPrice = Some P, GasLimit = 21000,
                        Value = Some (first_value nb)\<rparr> a2,
              Transfer \<lparr>Signer = k1, GasPrice = Some P, GasLimit = 21000,
                        Value = Some (second_value nb)\<rparr> a1,
              SellVouchers (NewKeyedTransactor k2),
              BuyVouchers (NewKeyedTransactor k2)]) \<and>
         (\<not> isl r \<longrightarrow>
            n = 4 \<and> r = Inr (''Token holder event successfully called at '' @ Time ev @ ''!''))"
proof -
  let ?A1 = "\<lparr>Signer = k1, GasPrice = Some P, GasLimit = 21000, Value = Some (first_value nb)\<rparr>"
  let ?A2 = "\<lparr>Signer = k1, GasPrice = Some P, GasLimit = 21000, Value = Some (second_value nb)\<rparr>"
  let ?S = "SellVouchers (NewKeyedTransactor k2)"
  let ?B = "BuyVouchers (NewKeyedTransactor k2)"
  let ?t1 = "transfer env (sent w) ?A1 a2"
  let ?w1 = "submit (Transfer ?A1 a2) ?t1 w"
  note defs = transfers_def formatError_def Let_def NewKeyedTransactor_def gasLimit_def
  show ?thesis
  proof (cases ?t1)
    case (Inl err)
    with assms have "w' = submit (Transfer ?A1 a2) (Inl err) w" and "isl r"
      by (auto simp add: defs)
    moreover have "stretch env w False (submit (Transfer ?A1 a2) (Inl err) w) [Transfer ?A1 a2]"
      by (rule stretch_submit_failed) simp
    ultimately show ?thesis
      by (intro exI [of _ 1]) simp
  next
    case t1: (Inr txn)
    with assms obtain r1 w2 where wait1: "waitForTx env ctx txn ?w1 = Some (r1, w2)"
      by (cases "waitForTx env ctx txn ?w1") (auto simp add: defs)
    with t1 have s2: "stretch env w (r1 = None) w2 [Transfer ?A1 a2]"
      by (intro stretch_submit_wait [where txn = txn and ctx = ctx]) simp_all
    show ?thesis
    proof (cases r1)
      case (Some err)
      with assms t1 wait1 have "w' = w2" and "isl r"
        by (auto simp add: defs)
      with s2 Some show ?thesis
        by (intro exI [of _ 1]) simp
    next
      case r1: None
      with s2 have s2': "stretch env w True w2 [Transfer ?A1 a2]"
        by simp
      let ?t2 = "transfer env (sent w2) ?A2 a1"
      let ?w3 = "submit (Transfer ?A2 a1) ?t2 w2"
      show ?thesis
      proof (cases ?t2)
        case (Inl err)
        with assms t1 wait1 r1 have "w' = submit (Transfer ?A2 a1) (Inl err) w2" and "isl r"
          by (auto simp add: defs)
        moreover have "stretch env w False (submit (Transfer ?A2 a1) (Inl err) w2)
            ([Transfer ?A1 a2] @ [Transfer ?A2 a1])"
          by (rule stretch_trans [OF s2' stretch_submit_failed]) simp
        ultimately show ?thesis
          by (intro exI [of _ 2]) simp
      next
        case t2: (Inr txn')
        with assms t1 wait1 r1 obtain r2 w4
          where wait2: "waitForTx env ctx txn' ?w3 = Some (r2, w4)"
          by (cases "waitForTx env ctx txn' ?w3") (auto simp add: defs)
        with t2 have "stretch env w2 (r2 = None) w4 [Transfer ?A2 a1]"
          by (intro stretch_submit_wait [where txn = txn' and ctx = ctx]) simp_all
        with s2' have s4: "stretch env w (r2 = None) w4 ([Transfer ?A1 a2] @ [Transfer ?A2 a1])"
          by (rule stretch_trans)
        show ?thesis
        proof (cases r2)
          case (Some err)
          with assms t1 wait1 r1 t2 wait2 have "w' = w4" and "isl r"
            by (auto simp add: defs)
          with s4 Some show ?thesis
            by (intro exI [of _ 2]) simp
        next
          case r2: None
          with assms t1 wait1 r1 t2 wait2 have "vouchers env ctx ev a2 k2 w4 = Some (r, w')"
            by (simp add: defs)
          then obtain n where "stretch env w4 (\<not> isl r) w' (take n [?S, ?B])"
            and fin: "\<not> isl r \<longrightarrow>
              n = 2 \<and> r = Inr (''Token holder event successfully called at '' @ Time ev @ ''!'')"
            using vouchers_stretch by blast
          moreover from s4 r2 have "stretch env w True w4 [Transfer ?A1 a2, Transfer ?A2 a1]"
            by simp
          ultimately have "stretch env w (\<not> isl r) w'
              ([Transfer ?A1 a2, Transfer ?A2 a1] @ take n [?S, ?B])"
            by (intro stretch_trans)
          with fin show ?thesis
            by (intro exI [of _ "2 + n"]) simp
        qed
      qed
    qed
  qed
qed

lemma stretch_prepared: "stretch env w True (prepared_world env k1 w) []"
  unfolding stretch_def
  by (intro exI [of _ "[Entry Parse None, Entry (Dial (EthereumJSONRPCURL (cfg env))) None,
        Entry SuggestGasPrice None, Entry (BalanceAt (PubkeyToAddress env k1)) None]"])
     (simp add: prepared_world_def submissions_def)

lemma sent_prepared: "sent (prepared_world env k1 w) = sent w"
  by (simp add: prepared_world_def)

text \<open>When the calls before the fee check succeed, the run is the fee check and the rest.\<close>

lemma HandleEvent_prepared:
  assumes "prepared env k1 k2 P B"
  shows "HandleEvent env ctx ev w =
     (if \<not> 0 < subtract_fees B P
      then Some (formatError ''Not enough balance in vault to cover txn fees'' [],
                 prepared_world env k1 w)
      else transfers env ctx ev k1 k2 (HexToAddress env (deqodeAddress (cfg env)))
             (HexToAddress env (TokenHolderContractAddress (cfg env))) P (subtract_fees B P)
             (prepared_world env k1 w))"
  using assms
  by (simp add: HandleEvent_def prepared_def prepared_world_def record_call_def Let_def)

text \<open>The submissions of a run whose first calls succeed: the plan, or a part of it from the start.\<close>

lemma HandleEvent_plan:
  assumes "prepared env k1 k2 P B" and "0 < subtract_fees B P"
    and "HandleEvent env ctx ev w = Some (r, w')"
  shows "\<exists>n>0. stretch env w (\<not> isl r) w' (take n (plan env k1 k2 P (subtract_fees B P))) \<and>
           (\<not> isl r \<longrightarrow>
              n = 4 \<and> r = Inr (''Token holder event successfully called at '' @ Time ev @ ''!''))"
proof -
  from assms have "transfers env ctx ev k1 k2 (HexToAddress env (deqodeAddress (cfg env)))
      (HexToAddress env (TokenHolderContractAddress (cfg env))) P (subtract_fees B P)
      (prepared_world env k1 w) = Some (r, w')"
    by (simp add: HandleEvent_prepared)
  from transfers_stretch [OF this] obtain n where n: "0 < n"
    "stretch env (prepared_world env k1 w) (\<not> isl r) w' (take n (plan env k1 k2 P (subtract_fees B P)))"
    "\<not> isl r \<longrightarrow>
       n = 4 \<and> r = Inr (''Token holder event successfully called at '' @ Time ev @ ''!'')"
    unfolding plan_def transfer_call_def by blast
  from stretch_prepared n(2)
  have "stretch env w (\<not> isl r) w' ([] @ take n (plan env k1 k2 P (subtract_fees B P)))"
    by (rule stretch_trans)
  with n(1,3) show ?thesis
    by auto
qed

text \<open>Every run that returns: no call follows a failed one.\<close>

lemma HandleEvent_stretch:
  assumes "HandleEvent env ctx ev w = Some (r, w')"
  shows "\<exists>cs. stretch env w (\<not> isl r) w' cs"
proof -
  let ?url = "EthereumJSONRPCURL (cfg env)"
  let ?w1 = "record_call Parse (config_Parse env) w"
  let ?w2 = "record_call (Dial ?url) (ethclient_Dial env ?url) ?w1"
  let ?w3 = "record_call SuggestGasPrice (err_of (suggestGasPrice env)) ?w2"
  note defs = HandleEvent_def formatError_def Let_def
  show ?thesis
  proof (cases "config_Parse env")
    case (Some err)
    with assms have "w' = ?w1" and "isl r"
      by (auto simp add: defs)
    moreover have "stretch env w False ?w1 []"
      using stretch_record [of env w Parse "config_Parse env"] Some by simp
    ultimately show ?thesis
      by auto
  next
    case parse: None
    then have s1: "stretch env w True ?w1 []"
      using stretch_record [of env w Parse "config_Parse env"] by simp
    show ?thesis
    proof (cases "ethclient_Dial env ?url")
      case (Some err)
      with assms parse have "w' = ?w2" and "isl r"
        by (auto simp add: defs)
      moreover have "stretch env ?w1 False ?w2 []"
        using stretch_record [of env ?w1 "Dial ?url" "ethclient_Dial env ?url"] Some by simp
      with s1 have "stretch env w False ?w2 ([] @ [])"
        by (rule stretch_trans)
      ultimately show ?thesis
        by auto
    next
      case dial: None
      then have "stretch env ?w1 True ?w2 []"
        using stretch_record [of env ?w1 "Dial ?url" "ethclient_Dial env ?url"] by simp
      with s1 have s2: "stretch env w True ?w2 ([] @ [])"
        by (rule stretch_trans)
      show ?thesis
      proof (cases "suggestGasPrice env")
        case (Inl err)
        with assms parse dial have "w' = ?w3" and "isl r"
          by (auto simp add: defs)
        moreover have "stretch env ?w2 False ?w3 []"
          using stretch_record [of env ?w2 SuggestGasPrice "err_of (suggestGasPrice env)"] Inl
          by simp
        with s2 have "stretch env w False ?w3 (([] @ []) @ [])"
          by (rule stretch_trans)
        ultimately show ?thesis
          by auto
      next
        case gas: (Inr P)
        then have "stretch env ?w2 True ?w3 []"
          using stretch_record [of env ?w2 SuggestGasPrice "err_of (suggestGasPrice env)"]
          by simp
        with s2 have s3: "stretch env w True ?w3 (([] @ []) @ [])"
          by (rule stretch_trans)
        show ?thesis
        proof (cases "HexToECDSA env (deqodeVaultPrivateKey (cfg env))")
          case (Inl err)
          with assms parse dial gas have "w' = ?w3" and "isl r"
            by (auto simp add: defs)
          with s3 show ?thesis
            by (auto intro: stretch_weaken)
        next
          case k1: (Inr k1)
          show ?thesis
          proof (cases "HexToECDSA env (TokenHolderProcessingKey (cfg env))")
            case (Inl err)
            with assms parse dial gas k1 have "w' = ?w3" and "isl r"
              by (auto simp add: defs)
            with s3 show ?thesis
              by (auto intro: stretch_weaken)
          next
            case k2: (Inr k2)
            let ?a = "PubkeyToAddress env k1"
            let ?w4 = "record_call (BalanceAt ?a) (err_of (balanceAt env ?a)) ?w3"
            show ?thesis
            proof (cases "balanceAt env ?a")
              case (Inl err)
              with assms parse dial gas k1 k2 have "w' = ?w4" and "isl r"
                by (auto simp add: defs)
              moreover have "stretch env ?w3 False ?w4 []"
                using stretch_record [of env ?w3 "BalanceAt ?a" "err_of (balanceAt env ?a)"] Inl
                by simp
              with s3 have "stretch env w False ?w4 ((([] @ []) @ []) @ [])"
                by (rule stretch_trans)
              ultimately show ?thesis
                by auto
            next
              case bal: (Inr B)
              with parse dial gas k1 k2 have p: "prepared env k1 k2 P B"
                by (simp add: prepared_def)
              show ?thesis
              proof (cases "0 < subtract_fees B P")
                case True
                from HandleEvent_plan [OF p True assms] show ?thesis
                  by blast
              next
                case False
                with assms p have "w' = prepared_world env k1 w" and "isl r"
                  by (auto simp add: HandleEvent_prepared formatError_def)
                with stretch_prepared [of env w k1] show ?thesis
                  by (auto intro: stretch_weaken)
              qed
            qed
          qed
        qed
      qed
    qed
  qed
qed

lemma transfers_not_insufficient:
  "transfers env ctx ev k1 k2 a1 a2 P nb w \<noteq>
     Some (Inl (Errorf ''Not enough balance in vault to cover txn fees'' []), w')"
  by (auto simp add: transfers_def vouchers_def formatError_def Let_def
      split: option.splits sum.splits)

lemma stretch_failure_last:
  assumes "stretch env w ok w' cs" and "trace w' = trace w @ pre @ x # post" and "failure env x"
  shows "post = [] \<and> \<not> ok"
proof -
  from assms(1,2) have clean: "\<forall>e\<in>set (butlast (pre @ x # post)). \<not> failure env e"
    and ok: "ok \<longrightarrow> (\<forall>e\<in>set (pre @ x # post). \<not> failure env e)"
    by (auto simp add: stretch_def)
  have "post = []"
  proof (rule ccontr)
    assume "post \<noteq> []"
    then have "x \<in> set (butlast (pre @ x # post))"
      by (simp add: butlast_append)
    with clean assms(3) show False
      by blast
  qed
  moreover from ok assms(3) have "\<not> ok"
    by auto
  ultimately show ?thesis
    by simp
qed

lemma stretch_submissions:
  "stretch env w ok w' cs \<Longrightarrow> submissions (drop (length (trace w)) (trace w')) = cs"
  by (auto simp add: stretch_def)



lemma subtract_fees_eq: "subtract_fees B P = B - gasLimit * 2 * P"
  by (simp add: subtract_fees_def)


text \<open>A wait on a backend that has a successful receipt for every query.\<close>

lemma wait_succeeds:
  assumes "\<forall>h n. \<exists>tr. transactionReceipt env h n = Inr tr \<and> Status tr = ReceiptStatusSuccessful env"
    and "commiter env \<or> done_at ctx = None"
  shows "\<exists>w'. waitForTx env ctx h w = Some (None, w')"
proof -
  from assms(1) obtain tr where tr: "transactionReceipt env h (queries w) = Inr tr"
    "Status tr = ReceiptStatusSuccessful env"
    by blast
  show ?thesis
  proof (cases "commiter env")
    case True
    with tr show ?thesis
      by (simp add: waitForTx_commit commit_and_check_eq found_def check_status_def)
  next
    case False
    with assms(2) have "timer_for env ctx (Suc 0) w"
      by (simp add: timer_for_def select_done_def)
    moreover have "not_found_for env h 0 w"
      by (simp add: not_found_for_def)
    moreover from tr have "transactionReceipt env h (queries w + 0) \<noteq> Inl NotFound"
      by simp
    ultimately have "poll env ctx h w =
        Some (found env (transactionReceipt env h (queries w + 0)), rounds env h (Suc 0) w)"
      by (intro poll_answer)
    with False tr show ?thesis
      by (simp add: waitForTx_poll found_def check_status_def)
  qed
qed

text \<open>A run in which every call succeeds returns the message.\<close>

lemma run_succeeds:
  assumes p: "prepared env k1 k2 P B" and pos: "0 < subtract_fees B P"
    and t: "\<forall>n opts a. \<not> isl (transfer env n opts a)"
    and s: "\<forall>n opts. \<not> isl (sellVouchers env n opts)"
    and b: "\<forall>n opts. \<not> isl (buyVouchers env n opts)"
    and c: "\<forall>a. newContract env a = None"
    and r: "\<forall>h n. \<exists>tr. transactionReceipt env h n = Inr tr \<and> Status tr = ReceiptStatusSuccessful env"
    and d: "commiter env \<or> done_at ctx = None"
  shows "\<exists>w'. HandleEvent env ctx ev w =
    Some (Inr (''Token holder event successfully called at '' @ Time ev @ ''!''), w')"
proof -
  let ?a1 = "HexToAddress env (deqodeAddress (cfg env))"
  let ?a2 = "HexToAddress env (TokenHolderContractAddress (cfg env))"
  let ?nb = "subtract_fees B P"
  let ?w0 = "prepared_world env k1 w"
  let ?A1 = "\<lparr>Signer = k1, GasPrice = Some P, GasLimit = 21000, Value = Some (first_value ?nb)\<rparr>"
  let ?A2 = "\<lparr>Signer = k1, GasPrice = Some P, GasLimit = 21000, Value = Some (second_value ?nb)\<rparr>"
  let ?K = "NewKeyedTransactor k2"
  note defs = Let_def NewKeyedTransactor_def gasLimit_def
  from t obtain h1 where t1: "transfer env (sent ?w0) ?A1 ?a2 = Inr h1"
    by (metis isl_def sum.collapse(2))
  from wait_succeeds [OF r d] obtain w2
    where wait1: "waitForTx env ctx h1 (submit (Transfer ?A1 ?a2) (Inr h1) ?w0) = Some (None, w2)"
    by blast
  from t obtain h2 where t2: "transfer env (sent w2) ?A2 ?a1 = Inr h2"
    by (metis isl_def sum.collapse(2))
  from wait_succeeds [OF r d] obtain w4
    where wait2: "waitForTx env ctx h2 (submit (Transfer ?A2 ?a1) (Inr h2) w2) = Some (None, w4)"
    by blast
  let ?w5 = "record_call (NewContract ?a2) None w4"
  from s obtain h3 where t3: "sellVouchers env (sent ?w5) (NewKeyedTransactor k2) = Inr h3"
    by (metis isl_def sum.collapse(2))
  from wait_succeeds [OF r d] obtain w6
    where wait3: "waitForTx env ctx h3 (submit (SellVouchers ?K) (Inr h3) ?w5) = Some (None, w6)"
    by blast
  from b obtain h4 where t4: "buyVouchers env (sent w6) (NewKeyedTransactor k2) = Inr h4"
    by (metis isl_def sum.collapse(2))
  from wait_succeeds [OF r d] obtain w8
    where wait4: "waitForTx env ctx h4 (submit (BuyVouchers ?K) (Inr h4) w6) = Some (None, w8)"
    by blast
  from c t3 wait3 t4 wait4
  have "vouchers env ctx ev ?a2 k2 w4 =
      Some (Inr (''Token holder event successfully called at '' @ Time ev @ ''!''), w8)"
    by (simp add: vouchers_def Let_def)
  with t1 wait1 t2 wait2
  have "transfers env ctx ev k1 k2 ?a1 ?a2 P ?nb ?w0 =
      Some (Inr (''Token holder event successfully called at '' @ Time ev @ ''!''), w8)"
    by (simp add: transfers_def defs)
  with p pos show ?thesis
    by (simp add: HandleEvent_prepared)
qed

subsection \<open>The claims on HandleEvent\<close>


lemmas model_defs =
  HandleEvent_def transfers_def vouchers_def waitForTx_def commit_and_check_def query_def
  found_def check_status_def record_call_def submit_def formatError_def Let_def
  subtract_fees_def first_value_def second_value_def gasLimit_def int2_def int3_def
  NewKeyedTransactor_def

lemmas mock_defs = mock_def start_def background_def good_def reverted_def tick_def


lemma mock_run_reverted:
  "HandleEvent (mock True (\<lambda>n. Inr reverted) 900000 10) background tick start =
     Some (Inl (Errorf ''Fund transfer txn with hash %s failed  with error : %s''
                  [AHash 100, AError (Errorf ''tx failed: %+v'' [AReceipt reverted])]),
       \<lparr>now = 0, queries = 1, sent = 1,
        trace =
          [Entry Parse None, Entry (Dial ''url'') None,
           Entry SuggestGasPrice None, Entry (BalanceAt 11) None,
           Entry (Transfer \<lparr>Signer = 1, GasPrice = Some 10, GasLimit = 21000,
                            Value = Some 160000\<rparr> 4) None,
           Entry Commit None,
           Entry (TransactionReceipt 100) (Some (Errorf ''tx failed: %+v'' [AReceipt reverted]))]\<rparr>)"
  by (simp add: model_defs mock_defs)

lemma mock_prepared: "prepared (mock sim answers B P) 1 2 P B"
  by (simp add: prepared_def mock_def)


text \<open>
  C2. In a run that gets the balance \<open>B\<close> and the gas price \<open>P\<close>, the result is the error
  of not enough balance exactly when \<open>B - gasLimit * 2 * P \<le> 0\<close>; the run then ends with
  the log of the four calls made to get there, and nothing submitted.
\<close>

theorem insufficient_funds_iff:
  assumes "prepared env k1 k2 P B"
  shows "((\<exists>w'. HandleEvent env ctx ev w =
              Some (Inl (Errorf ''Not enough balance in vault to cover txn fees'' []), w'))
            \<longleftrightarrow> B - gasLimit * 2 * P \<le> 0) \<and>
         (B - gasLimit * 2 * P \<le> 0 \<longrightarrow>
            HandleEvent env ctx ev w =
              Some (Inl (Errorf ''Not enough balance in vault to cover txn fees'' []),
                    prepared_world env k1 w) \<and>
            sent (prepared_world env k1 w) = sent w \<and>
            submissions (drop (length (trace w)) (trace (prepared_world env k1 w))) = [])"
proof (intro conjI impI iffI)
  assume "\<exists>w'. HandleEvent env ctx ev w =
      Some (Inl (Errorf ''Not enough balance in vault to cover txn fees'' []), w')"
  then obtain w' where run: "HandleEvent env ctx ev w =
      Some (Inl (Errorf ''Not enough balance in vault to cover txn fees'' []), w')"
    by blast
  show "B - gasLimit * 2 * P \<le> 0"
  proof (rule ccontr)
    assume "\<not> B - gasLimit * 2 * P \<le> 0"
    then have "0 < subtract_fees B P"
      by (simp add: subtract_fees_eq)
    with assms run show False
      by (simp add: HandleEvent_prepared transfers_not_insufficient)
  qed
next
  assume "B - gasLimit * 2 * P \<le> 0"
  then have "\<not> 0 < subtract_fees B P"
    by (simp add: subtract_fees_eq)
  with assms have run: "HandleEvent env ctx ev w =
      Some (Inl (Errorf ''Not enough balance in vault to cover txn fees'' []),
            prepared_world env k1 w)"
    by (simp add: HandleEvent_prepared formatError_def)
  then show "\<exists>w'. HandleEvent env ctx ev w =
      Some (Inl (Errorf ''Not enough balance in vault to cover txn fees'' []), w')"
    by blast
  from run show "HandleEvent env ctx ev w =
      Some (Inl (Errorf ''Not enough balance in vault to cover txn fees'' []),
            prepared_world env k1 w)" .
  show "sent (prepared_world env k1 w) = sent w"
    by (rule sent_prepared)
  show "submissions (drop (length (trace w)) (trace (prepared_world env k1 w))) = []"
    using stretch_prepared by (rule stretch_submissions)
qed

theorem insufficient_funds_iff_witness:
  "prepared (mock False (\<lambda>n. Inl NotFound) 420000 10) 1 2 10 420000 \<and>
   420000 - gasLimit * 2 * 10 \<le> 0 \<and>
   HandleEvent (mock False (\<lambda>n. Inl NotFound) 420000 10) background tick start =
     Some (Inl (Errorf ''Not enough balance in vault to cover txn fees'' []),
           \<lparr>now = 0, queries = 0, sent = 0,
            trace = [Entry Parse None, Entry (Dial ''url'') None,
                     Entry SuggestGasPrice None, Entry (BalanceAt 11) None]\<rparr>)"
proof -
  let ?env = "mock False (\<lambda>n. Inl NotFound) 420000 10"
  have p: "prepared ?env 1 2 10 420000"
    by (rule mock_prepared)
  have z: "(420000::int) - gasLimit * 2 * 10 \<le> 0"
    by (simp add: gasLimit_def)
  have w: "prepared_world ?env 1 start =
      \<lparr>now = 0, queries = 0, sent = 0,
       trace = [Entry Parse None, Entry (Dial ''url'') None,
                Entry SuggestGasPrice None, Entry (BalanceAt 11) None]\<rparr>"
    by (simp add: prepared_world_def mock_def start_def)
  from insufficient_funds_iff [OF p, of background tick start] z
  have "HandleEvent ?env background tick start =
      Some (Inl (Errorf ''Not enough balance in vault to cover txn fees'' []),
            prepared_world ?env 1 start)"
    by blast
  with p z w show ?thesis
    by simp
qed

lemma found_None:
  "found env a = None \<longleftrightarrow> (\<exists>tr. a = Inr tr \<and> Status tr = ReceiptStatusSuccessful env)"
  by (cases a) (auto simp add: found_def check_status_def)

text \<open>A wait returns nil only after a receipt with the successful status.\<close>

lemma wait_nil_receipt:
  assumes "waitForTx env ctx h w = Some (None, w')"
  shows "receipt_seen env h w w'"
proof -
  from assms have "stretch env w True w' []"
    using stretch_wait by fastforce
  then obtain es where es: "trace w' = trace w @ es" "submissions es = []"
    by (auto simp add: stretch_def)
  have "queries w < queries w' \<and> found env (transactionReceipt env h (queries w' - 1)) = None \<and>
      es \<noteq> [] \<and> last (trace w') = Entry (TransactionReceipt h) None"
  proof (cases "commiter env")
    case True
    with assms have "commit_and_check env h w = (None, w')"
      by (simp add: waitForTx_commit)
    with es(1) show ?thesis
      by (auto simp add: commit_and_check_eq)
  next
    case False
    with assms have "poll env ctx h w = Some (None, w')"
      by (simp add: waitForTx_poll)
    then obtain k where "ends_after env ctx h w k (None, w')"
      using poll_returns by blast
    then have l: "last_round env ctx h (rounds env h k w) = Some (None, w')"
      by (simp add: ends_after_def)
    then have f: "found env (transactionReceipt env h (queries w + k)) = None"
      and w': "w' = rounds env h (Suc k) w"
      by (auto simp add: last_round_def queries_rounds rounds_rounds split: if_splits)
    from w' have "trace w' = trace w @
        concat (map (round_entries env h) [queries w..<queries w + k]) @
        round_entries env h (queries w + k)"
      by (simp add: rounds_def)
    with f w' es(1) show ?thesis
      by (auto simp add: round_entries_def queries_rounds)
  qed
  with es show ?thesis
    by (auto simp add: receipt_seen_def found_None)
qed

lemma confirmed_receipt:
  assumes "confirmed env ctx c res u u'"
  shows "\<exists>h. res = Inr h \<and> receipt_seen env h (submit c (Inr h) u) u'"
  using assms
  by (cases res) (auto simp add: confirmed_def intro: wait_nil_receipt)

lemma confirmedD:
  "confirmed env ctx c res u u' \<Longrightarrow>
     \<exists>h. res = Inr h \<and> waitForTx env ctx h (submit c (Inr h) u) = Some (None, u')"
  by (cases res) (simp_all add: confirmed_def)

text \<open>The run whose four submissions are accepted and confirmed returns the message.\<close>

lemma run_of_confirmed:
  assumes "prepared env k1 k2 P B" and "0 < subtract_fees B P"
    and "confirmed env ctx
           (Transfer \<lparr>Signer = k1, GasPrice = Some P, GasLimit = 21000,
                      Value = Some (first_value (subtract_fees B P))\<rparr>
              (HexToAddress env (TokenHolderContractAddress (cfg env))))
           (transfer env (sent (prepared_world env k1 w))
              \<lparr>Signer = k1, GasPrice = Some P, GasLimit = 21000,
                Value = Some (first_value (subtract_fees B P))\<rparr>
              (HexToAddress env (TokenHolderContractAddress (cfg env))))
           (prepared_world env k1 w) w2"
    and "confirmed env ctx
           (Transfer \<lparr>Signer = k1, GasPrice = Some P, GasLimit = 21000,
                      Value = Some (second_value (subtract_fees B P))\<rparr>
              (HexToAddress env (deqodeAddress (cfg env))))
           (transfer env (sent w2)
              \<lparr>Signer = k1, GasPrice = Some P, GasLimit = 21000,
                Value = Some (second_value (subtract_fees B P))\<rparr>
              (HexToAddress env (deqodeAddress (cfg env))))
           w2 w4"
    and "newContract env (HexToAddress env (TokenHolderContractAddress (cfg env))) = None"
    and "confirmed env ctx (SellVouchers (NewKeyedTransactor k2))
           (sellVouchers env
              (sent (record_call
                 (NewContract (HexToAddress env (TokenHolderContractAddress (cfg env)))) None w4))
              (NewKeyedTransactor k2))
           (record_call
              (NewContract (HexToAddress env (TokenHolderContractAddress (cfg env)))) None w4)
           w6"
    and "confirmed env ctx (BuyVouchers (NewKeyedTransactor k2))
           (buyVouchers env (sent w6) (NewKeyedTransactor k2)) w6 w8"
  shows "HandleEvent env ctx ev w =
     Some (Inr (''Token holder event successfully called at '' @ Time ev @ ''!''), w8)"
proof -
  from confirmedD [OF assms(3)] obtain h1 where 1:
    "transfer env (sent (prepared_world env k1 w))
       \<lparr>Signer = k1, GasPrice = Some P, GasLimit = 21000,
         Value = Some (first_value (subtract_fees B P))\<rparr>
       (HexToAddress env (TokenHolderContractAddress (cfg env))) = Inr h1"
    "waitForTx env ctx h1
       (submit (Transfer \<lparr>Signer = k1, GasPrice = Some P, GasLimit = 21000,
                          Value = Some (first_value (subtract_fees B P))\<rparr>
                  (HexToAddress env (TokenHolderContractAddress (cfg env))))
          (Inr h1) (prepared_world env k1 w)) = Some (None, w2)"
    by blast
  from confirmedD [OF assms(4)] obtain h2 where 2:
    "transfer env (sent w2)
       \<lparr>Signer = k1, GasPrice = Some P, GasLimit = 21000,
         Value = Some (second_value (subtract_fees B P))\<rparr>
       (HexToAddress env (deqodeAddress (cfg env))) = Inr h2"
    "waitForTx env ctx h2
       (submit (Transfer \<lparr>Signer = k1, GasPrice = Some P, GasLimit = 21000,
                          Value = Some (second_value (subtract_fees B P))\<rparr>
                  (HexToAddress env (deqodeAddress (cfg env))))
          (Inr h2) w2) = Some (None, w4)"
    by blast
  from confirmedD [OF assms(6)] obtain h3 where 3:
    "sellVouchers env
       (sent (record_call
          (NewContract (HexToAddress env (TokenHolderContractAddress (cfg env)))) None w4))
       (NewKeyedTransactor k2) = Inr h3"
    "waitForTx env ctx h3
       (submit (SellVouchers (NewKeyedTransactor k2)) (Inr h3)
          (record_call
             (NewContract (HexToAddress env (TokenHolderContractAddress (cfg env)))) None w4))
       = Some (None, w6)"
    by blast
  from confirmedD [OF assms(7)] obtain h4 where 4:
    "buyVouchers env (sent w6) (NewKeyedTransactor k2) = Inr h4"
    "waitForTx env ctx h4 (submit (BuyVouchers (NewKeyedTransactor k2)) (Inr h4) w6)
       = Some (None, w8)"
    by blast
  from assms(5) 3 4
  have "vouchers env ctx ev (HexToAddress env (TokenHolderContractAddress (cfg env))) k2 w4 =
      Some (Inr (''Token holder event successfully called at '' @ Time ev @ ''!''), w8)"
    by (simp add: vouchers_def Let_def)
  with 1 2
  have "transfers env ctx ev k1 k2 (HexToAddress env (deqodeAddress (cfg env)))
      (HexToAddress env (TokenHolderContractAddress (cfg env))) P (subtract_fees B P)
      (prepared_world env k1 w) =
      Some (Inr (''Token holder event successfully called at '' @ Time ev @ ''!''), w8)"
    by (simp add: transfers_def Let_def NewKeyedTransactor_def gasLimit_def)
  with assms(1,2) show ?thesis
    by (simp add: HandleEvent_prepared)
qed

text \<open>Every run that returns a message is such a run.\<close>

lemma successful_run_confirmed:
  assumes "prepared env k1 k2 P B" and "0 < subtract_fees B P"
    and "HandleEvent env ctx ev w = Some (Inr m, w')"
  shows "m = ''Token holder event successfully called at '' @ Time ev @ ''!'' \<and>
     newContract env (HexToAddress env (TokenHolderContractAddress (cfg env))) = None \<and>
     (\<exists>w2 w4 w6.
        confirmed env ctx
          (Transfer \<lparr>Signer = k1, GasPrice = Some P, GasLimit = 21000,
                     Value = Some (first_value (subtract_fees B P))\<rparr>
             (HexToAddress env (TokenHolderContractAddress (cfg env))))
          (transfer env (sent (prepared_world env k1 w))
             \<lparr>Signer = k1, GasPrice = Some P, GasLimit = 21000,
               Value = Some (first_value (subtract_fees B P))\<rparr>
             (HexToAddress env (TokenHolderContractAddress (cfg env))))
          (prepared_world env k1 w) w2 \<and>
        confirmed env ctx
          (Transfer \<lparr>Signer = k1, GasPrice = Some P, GasLimit = 21000,
                     Value = Some (second_value (subtract_fees B P))\<rparr>
             (HexToAddress env (deqodeAddress (cfg env))))
          (transfer env (sent w2)
             \<lparr>Signer = k1, GasPrice = Some P, GasLimit = 21000,
               Value = Some (second_value (subtract_fees B P))\<rparr>
             (HexToAddress env (deqodeAddress (cfg env))))
          w2 w4 \<and>
        confirmed env ctx (SellVouchers (NewKeyedTransactor k2))
          (sellVouchers env
             (sent (record_call
                (NewContract (HexToAddress env (TokenHolderContractAddress (cfg env)))) None w4))
             (NewKeyedTransactor k2))
          (record_call
             (NewContract (HexToAddress env (TokenHolderContractAddress (cfg env)))) None w4)
          w6 \<and>
        confirmed env ctx (BuyVouchers (NewKeyedTransactor k2))
          (buyVouchers env (sent w6) (NewKeyedTransactor k2)) w6 w')"
proof -
  let ?a1 = "HexToAddress env (deqodeAddress (cfg env))"
  let ?a2 = "HexToAddress env (TokenHolderContractAddress (cfg env))"
  let ?A1 = "\<lparr>Signer = k1, GasPrice = Some P, GasLimit = 21000,
              Value = Some (first_value (subtract_fees B P))\<rparr>"
  let ?A2 = "\<lparr>Signer = k1, GasPrice = Some P, GasLimit = 21000,
              Value = Some (second_value (subtract_fees B P))\<rparr>"
  let ?K = "\<lparr>Signer = k2, GasPrice = None, GasLimit = 0, Value = None\<rparr>"
  from assms obtain h1 w2 h2 w4 h3 w6 h4 where
    m: "m = ''Token holder event successfully called at '' @ Time ev @ ''!''"
    and nc: "newContract env ?a2 = None"
    and 1: "transfer env (sent (prepared_world env k1 w)) ?A1 ?a2 = Inr h1"
      "waitForTx env ctx h1 (submit (Transfer ?A1 ?a2) (Inr h1) (prepared_world env k1 w))
         = Some (None, w2)"
    and 2: "transfer env (sent w2) ?A2 ?a1 = Inr h2"
      "waitForTx env ctx h2 (submit (Transfer ?A2 ?a1) (Inr h2) w2) = Some (None, w4)"
    and 3: "sellVouchers env (sent (record_call (NewContract ?a2) None w4)) ?K = Inr h3"
      "waitForTx env ctx h3
         (submit (SellVouchers ?K) (Inr h3) (record_call (NewContract ?a2) None w4))
         = Some (None, w6)"
    and 4: "buyVouchers env (sent w6) ?K = Inr h4"
      "waitForTx env ctx h4 (submit (BuyVouchers ?K) (Inr h4) w6) = Some (None, w')"
    by (auto simp add: HandleEvent_prepared transfers_def vouchers_def formatError_def
        NewKeyedTransactor_def gasLimit_def Let_def
        split: sum.splits option.splits)
  from m nc 1 2 3 4 show ?thesis
    by (intro conjI exI [of _ w2] exI [of _ w4] exI [of _ w6])
       (simp_all add: confirmed_def NewKeyedTransactor_def)
qed

lemma mock_run_polling:
  "HandleEvent (mock False (after_not_found 1 (Inr good)) 900000 10) (deadline 900) tick start =
     Some (Inr ''Token holder event successfully called at 2019-03-01 12:00:00 +0000 UTC!'',
       \<lparr>now = 20, queries = 5, sent = 4,
        trace =
          [Entry Parse None, Entry (Dial ''url'') None,
           Entry SuggestGasPrice None, Entry (BalanceAt 11) None,
           Entry (Transfer \<lparr>Signer = 1, GasPrice = Some 10, GasLimit = 21000,
                            Value = Some 160000\<rparr> 4) None,
           Entry After4 None, Entry (TransactionReceipt 100) (Some NotFound),
           Entry After4 None, Entry (TransactionReceipt 100) None,
           Entry (Transfer \<lparr>Signer = 1, GasPrice = Some 10, GasLimit = 21000,
                            Value = Some 320000\<rparr> 3) None,
           Entry After4 None, Entry (TransactionReceipt 101) None,
           Entry (NewContract 4) None,
           Entry (SellVouchers \<lparr>Signer = 2, GasPrice = None, GasLimit = 0, Value = None\<rparr>) None,
           Entry After4 None, Entry (TransactionReceipt 102) None,
           Entry (BuyVouchers \<lparr>Signer = 2, GasPrice = None, GasLimit = 0, Value = None\<rparr>) None,
           Entry After4 None, Entry (TransactionReceipt 103) None]\<rparr>)"
  by (simp add: model_defs mock_defs deadline_def after_not_found_def poll.simps select_done_def
      after_timer_def after_done_def)

text \<open>
  C5. With the balance 900000 and the gas price 10 (the gas limit is the constant 21000),
  the fee reserve is 420000, the balance left 480000, the first value 160000 and the second
  320000. The run returns a message exactly when the transfer of 160000 to the token holder
  contract is accepted and confirmed, then the transfer of 320000 to the deqode address,
  then the contract is bound, then the sell vouchers call and then the buy vouchers call are
  accepted and confirmed, each in the world the one before left; the message is then the
  fixed text around the time of the event as it was given, and these four are the
  submissions of the run, in this order. Confirmed means that the wait returned
  \<^verbatim>\<open>nil\<close>, which it does only after a receipt with the successful status was received
  for the hash of that submission.
\<close>

theorem run_with_900000:
  assumes "prepared env k1 k2 10 900000"
  shows "gasLimit * 2 * 10 = 420000 \<and>
         subtract_fees 900000 10 = 480000 \<and>
         first_value (subtract_fees 900000 10) = 160000 \<and>
         second_value (subtract_fees 900000 10) = 320000 \<and>
         (let w0 = prepared_world env k1 w;
              a1 = HexToAddress env (deqodeAddress (cfg env));
              a2 = HexToAddress env (TokenHolderContractAddress (cfg env));
              A1 = \<lparr>Signer = k1, GasPrice = Some 10, GasLimit = 21000, Value = Some 160000\<rparr>;
              A2 = \<lparr>Signer = k1, GasPrice = Some 10, GasLimit = 21000, Value = Some 320000\<rparr>;
              K = NewKeyedTransactor k2
          in (\<forall>m w'.
                HandleEvent env ctx ev w = Some (Inr m, w') \<longleftrightarrow>
                  m = ''Token holder event successfully called at '' @ Time ev @ ''!'' \<and>
                  newContract env a2 = None \<and>
                  (\<exists>w2 w4 w6.
                     confirmed env ctx (Transfer A1 a2) (transfer env (sent w0) A1 a2) w0 w2 \<and>
                     confirmed env ctx (Transfer A2 a1) (transfer env (sent w2) A2 a1) w2 w4 \<and>
                     confirmed env ctx (SellVouchers K)
                       (sellVouchers env (sent (record_call (NewContract a2) None w4)) K)
                       (record_call (NewContract a2) None w4) w6 \<and>
                     confirmed env ctx (BuyVouchers K) (buyVouchers env (sent w6) K) w6 w')) \<and>
             (\<forall>m w'.
                HandleEvent env ctx ev w = Some (Inr m, w') \<longrightarrow>
                  submissions (drop (length (trace w)) (trace w')) =
                    [Transfer A1 a2, Transfer A2 a1, SellVouchers K, BuyVouchers K]) \<and>
             (\<forall>c res u u'.
                confirmed env ctx c res u u' \<longrightarrow>
                  (\<exists>h. res = Inr h \<and> receipt_seen env h (submit c (Inr h) u) u')))"
proof -
  have fee: "gasLimit * 2 * 10 = 420000"
    by (simp add: gasLimit_def)
  have net: "subtract_fees 900000 10 = 480000"
    by (simp add: subtract_fees_def gasLimit_def)
  have v1: "first_value (subtract_fees 900000 10) = 160000"
    by (simp add: net first_value_def int3_def)
  have v2: "second_value (subtract_fees 900000 10) = 320000"
    by (simp add: net second_value_def int2_def int3_def)
  from net have pos: "0 < subtract_fees 900000 10"
    by simp
  note fwd = run_of_confirmed [OF assms pos, unfolded v1 v2]
  note bwd = successful_run_confirmed [OF assms pos, unfolded v1 v2]
  have subs: "submissions (drop (length (trace w)) (trace w')) =
      [Transfer \<lparr>Signer = k1, GasPrice = Some 10, GasLimit = 21000, Value = Some 160000\<rparr>
         (HexToAddress env (TokenHolderContractAddress (cfg env))),
       Transfer \<lparr>Signer = k1, GasPrice = Some 10, GasLimit = 21000, Value = Some 320000\<rparr>
         (HexToAddress env (deqodeAddress (cfg env))),
       SellVouchers (NewKeyedTransactor k2), BuyVouchers (NewKeyedTransactor k2)]"
    if run: "HandleEvent env ctx ev w = Some (Inr m, w')" for m w'
  proof -
    from HandleEvent_plan [OF assms pos run] obtain n
      where "stretch env w (\<not> isl (Inr m :: error + string)) w'
          (take n (plan env k1 k2 10 (subtract_fees 900000 10)))"
        and "n = 4"
      by auto
    then have "submissions (drop (length (trace w)) (trace w')) =
        take 4 (plan env k1 k2 10 (subtract_fees 900000 10))"
      by (simp add: stretch_submissions)
    then show ?thesis
      by (simp add: plan_def transfer_call_def v1 v2)
  qed
  show ?thesis
    unfolding Let_def
  proof (intro conjI allI impI iffI)
    show "gasLimit * 2 * 10 = 420000" by (rule fee)
    show "subtract_fees 900000 10 = 480000" by (rule net)
    show "first_value (subtract_fees 900000 10) = 160000" by (rule v1)
    show "second_value (subtract_fees 900000 10) = 320000" by (rule v2)
  next
    fix m w'
    assume "HandleEvent env ctx ev w = Some (Inr m, w')"
    from bwd [OF this]
    show "m = ''Token holder event successfully called at '' @ Time ev @ ''!''"
      and "newContract env (HexToAddress env (TokenHolderContractAddress (cfg env))) = None"
      and "\<exists>w2 w4 w6.
        confirmed env ctx
          (Transfer \<lparr>Signer = k1, GasPrice = Some 10, GasLimit = 21000, Value = Some 160000\<rparr>
             (HexToAddress env (TokenHolderContractAddress (cfg env))))
          (transfer env (sent (prepared_world env k1 w))
             \<lparr>Signer = k1, GasPrice = Some 10, GasLimit = 21000, Value = Some 160000\<rparr>
             (HexToAddress env (TokenHolderContractAddress (cfg env))))
          (prepared_world env k1 w) w2 \<and>
        confirmed env ctx
          (Transfer \<lparr>Signer = k1, GasPrice = Some 10, GasLimit = 21000, Value = Some 320000\<rparr>
             (HexToAddress env (deqodeAddress (cfg env))))
          (transfer env (sent w2)
             \<lparr>Signer = k1, GasPrice = Some 10, GasLimit = 21000, Value = Some 320000\<rparr>
             (HexToAddress env (deqodeAddress (cfg env))))
          w2 w4 \<and>
        confirmed env ctx (SellVouchers (NewKeyedTransactor k2))
          (sellVouchers env
             (sent (record_call
                (NewContract (HexToAddress env (TokenHolderContractAddress (cfg env)))) None w4))
             (NewKeyedTransactor k2))
          (record_call
             (NewContract (HexToAddress env (TokenHolderContractAddress (cfg env)))) None w4)
          w6 \<and>
        confirmed env ctx (BuyVouchers (NewKeyedTransactor k2))
          (buyVouchers env (sent w6) (NewKeyedTransactor k2)) w6 w'"
      by blast+
  next
    fix m w'
    assume "m = ''Token holder event successfully called at '' @ Time ev @ ''!'' \<and>
      newContract env (HexToAddress env (TokenHolderContractAddress (cfg env))) = None \<and>
      (\<exists>w2 w4 w6.
        confirmed env ctx
          (Transfer \<lparr>Signer = k1, GasPrice = Some 10, GasLimit = 21000, Value = Some 160000\<rparr>
             (HexToAddress env (TokenHolderContractAddress (cfg env))))
          (transfer env (sent (prepared_world env k1 w))
             \<lparr>Signer = k1, GasPrice = Some 10, GasLimit = 21000, Value = Some 160000\<rparr>
             (HexToAddress env (TokenHolderContractAddress (cfg env))))
          (prepared_world env k1 w) w2 \<and>
        confirmed env ctx
          (Transfer \<lparr>Signer = k1, GasPrice = Some 10, GasLimit = 21000, Value = Some 320000\<rparr>
             (HexToAddress env (deqodeAddress (cfg env))))
          (transfer env (sent w2)
             \<lparr>Signer = k1, GasPrice = Some 10, GasLimit = 21000, Value = Some 320000\<rparr>
             (HexToAddress env (deqodeAddress (cfg env))))
          w2 w4 \<and>
        confirmed env ctx (SellVouchers (NewKeyedTransactor k2))
          (sellVouchers env
             (sent (record_call
                (NewContract (HexToAddress env (TokenHolderContractAddress (cfg env)))) None w4))
             (NewKeyedTransactor k2))
          (record_call
             (NewContract (HexToAddress env (TokenHolderContractAddress (cfg env)))) None w4)
          w6 \<and>
        confirmed env ctx (BuyVouchers (NewKeyedTransactor k2))
          (buyVouchers env (sent w6) (NewKeyedTransactor k2)) w6 w')"
    then show "HandleEvent env ctx ev w = Some (Inr m, w')"
      using fwd by blast
  next
    fix m w'
    assume "HandleEvent env ctx ev w = Some (Inr m, w')"
    then show "submissions (drop (length (trace w)) (trace w')) =
      [Transfer \<lparr>Signer = k1, GasPrice = Some 10, GasLimit = 21000, Value = Some 160000\<rparr>
         (HexToAddress env (TokenHolderContractAddress (cfg env))),
       Transfer \<lparr>Signer = k1, GasPrice = Some 10, GasLimit = 21000, Value = Some 320000\<rparr>
         (HexToAddress env (deqodeAddress (cfg env))),
       SellVouchers (NewKeyedTransactor k2), BuyVouchers (NewKeyedTransactor k2)]"
      by (rule subs)
  next
    fix c res u u'
    assume "confirmed env ctx c res u u'"
    then show "\<exists>h. res = Inr h \<and> receipt_seen env h (submit c (Inr h) u) u'"
      by (rule confirmed_receipt)
  qed
qed

theorem run_with_900000_witness:
  "prepared (mock False (after_not_found 1 (Inr good)) 900000 10) 1 2 10 900000 \<and>
   (\<exists>w'. HandleEvent (mock False (after_not_found 1 (Inr good)) 900000 10) (deadline 900) tick start =
      Some (Inr ''Token holder event successfully called at 2019-03-01 12:00:00 +0000 UTC!'', w') \<and>
      now w' = 20 \<and> queries w' = 5 \<and>
      submissions (trace w') =
        [Transfer \<lparr>Signer = 1, GasPrice = Some 10, GasLimit = 21000, Value = Some 160000\<rparr> 4,
         Transfer \<lparr>Signer = 1, GasPrice = Some 10, GasLimit = 21000, Value = Some 320000\<rparr> 3,
         SellVouchers \<lparr>Signer = 2, GasPrice = None, GasLimit = 0, Value = None\<rparr>,
         BuyVouchers \<lparr>Signer = 2, GasPrice = None, GasLimit = 0, Value = None\<rparr>] \<and>
      (\<exists>w2 w4 w6 h1 h2 h3 h4.
         receipt_seen (mock False (after_not_found 1 (Inr good)) 900000 10) h1
           (submit (Transfer \<lparr>Signer = 1, GasPrice = Some 10, GasLimit = 21000,
                              Value = Some 160000\<rparr> 4) (Inr h1)
              (prepared_world (mock False (after_not_found 1 (Inr good)) 900000 10) 1 start)) w2 \<and>
         receipt_seen (mock False (after_not_found 1 (Inr good)) 900000 10) h2
           (submit (Transfer \<lparr>Signer = 1, GasPrice = Some 10, GasLimit = 21000,
                              Value = Some 320000\<rparr> 3) (Inr h2) w2) w4 \<and>
         receipt_seen (mock False (after_not_found 1 (Inr good)) 900000 10) h3
           (submit (SellVouchers (NewKeyedTransactor 2)) (Inr h3)
              (record_call (NewContract 4) None w4)) w6 \<and>
         receipt_seen (mock False (after_not_found 1 (Inr good)) 900000 10) h4
           (submit (BuyVouchers (NewKeyedTransactor 2)) (Inr h4) w6) w'))"
proof -
  let ?env = "mock False (after_not_found 1 (Inr good)) 900000 10"
  let ?A1 = "\<lparr>Signer = 1, GasPrice = Some 10, GasLimit = 21000, Value = Some 160000\<rparr>"
  let ?A2 = "\<lparr>Signer = 1, GasPrice = Some 10, GasLimit = 21000, Value = Some 320000\<rparr>"
  let ?K = "NewKeyedTransactor 2"
  let ?w0 = "prepared_world ?env 1 start"
  have p: "prepared ?env 1 2 10 900000"
    by (rule mock_prepared)
  have a1: "HexToAddress ?env (deqodeAddress (cfg ?env)) = 3"
    and a2: "HexToAddress ?env (TokenHolderContractAddress (cfg ?env)) = 4"
    by (simp_all add: mock_def)
  obtain w' where run: "HandleEvent ?env (deadline 900) tick start =
      Some (Inr ''Token holder event successfully called at 2019-03-01 12:00:00 +0000 UTC!'', w')"
    and clock: "now w' = 20" "queries w' = 5"
    using mock_run_polling by simp
  note T = run_with_900000 [OF p, of start "deadline 900" tick, unfolded Let_def a1 a2]
  from T run have subs: "submissions (drop (length (trace start)) (trace w')) =
      [Transfer ?A1 4, Transfer ?A2 3, SellVouchers ?K, BuyVouchers ?K]"
    by blast
  from T run obtain w2 w4 w6 where
    "confirmed ?env (deadline 900) (Transfer ?A1 4) (transfer ?env (sent ?w0) ?A1 4) ?w0 w2"
    "confirmed ?env (deadline 900) (Transfer ?A2 3) (transfer ?env (sent w2) ?A2 3) w2 w4"
    "confirmed ?env (deadline 900) (SellVouchers ?K)
       (sellVouchers ?env (sent (record_call (NewContract 4) None w4)) ?K)
       (record_call (NewContract 4) None w4) w6"
    "confirmed ?env (deadline 900) (BuyVouchers ?K) (buyVouchers ?env (sent w6) ?K) w6 w'"
    by blast
  with T obtain h1 h2 h3 h4 where
    "receipt_seen ?env h1 (submit (Transfer ?A1 4) (Inr h1) ?w0) w2"
    "receipt_seen ?env h2 (submit (Transfer ?A2 3) (Inr h2) w2) w4"
    "receipt_seen ?env h3 (submit (SellVouchers ?K) (Inr h3) (record_call (NewContract 4) None w4)) w6"
    "receipt_seen ?env h4 (submit (BuyVouchers ?K) (Inr h4) w6) w'"
    by metis
  moreover from subs have "submissions (trace w') =
      [Transfer ?A1 4, Transfer ?A2 3,
       SellVouchers \<lparr>Signer = 2, GasPrice = None, GasLimit = 0, Value = None\<rparr>,
       BuyVouchers \<lparr>Signer = 2, GasPrice = None, GasLimit = 0, Value = None\<rparr>]"
    by (simp add: start_def NewKeyedTransactor_def)
  ultimately show ?thesis
    using p run clock by blast
qed

text \<open>
  C3. Every failure returns from the run at once. First, the calls before the fee check:
  when one of them fails, the run returns the error made from its error, in the world of
  that call, with nothing after it in the log. Next, when these calls succeed: the run
  returns the error of not enough balance when the balance left is not positive, and
  otherwise it goes through the four steps, each reached only in the world that the confirmed
  step before it left. At each step, a refused submission returns the error made from its
  error in the world of that submission, and a wait that returns an error returns the error
  made from the hash and that error in the world the wait left; so when the first transfer
  is refused or its wait fails, the second transfer and the two voucher calls are not made.
  Last, in every run that returns, no entry of the log follows a failed call and the result is
  then an error; the submissions are a part of the plan from its start, and when a call
  fails while the first transfer is the only submission so far, the first transfer is the
  only submission of the run.
\<close>

theorem failure_ends_run:
  "(let url = EthereumJSONRPCURL (cfg env);
        w1 = record_call Parse (config_Parse env) w;
        w2 = record_call (Dial url) (ethclient_Dial env url) w1;
        w3 = record_call SuggestGasPrice (err_of (suggestGasPrice env)) w2
    in (\<forall>e. config_Parse env = Some e \<longrightarrow>
          HandleEvent env ctx ev w =
            Some (Inl (Errorf ''Unable to parse environment variables with error : %s''
                         [AError e]), w1)) \<and>
       (\<forall>e. config_Parse env = None \<and> ethclient_Dial env url = Some e \<longrightarrow>
          HandleEvent env ctx ev w =
            Some (Inl (Errorf ''Failed to call ethereum client with error : %s'' [AError e]), w2)) \<and>
       (\<forall>e. config_Parse env = None \<and> ethclient_Dial env url = None \<and>
            suggestGasPrice env = Inl e \<longrightarrow>
          HandleEvent env ctx ev w =
            Some (Inl (Errorf ''Failed to get gas price from ethereum client with error : %s''
                         [AError e]), w3)) \<and>
       (\<forall>gasPrice e.
          config_Parse env = None \<and> ethclient_Dial env url = None \<and>
          suggestGasPrice env = Inr gasPrice \<and>
          HexToECDSA env (deqodeVaultPrivateKey (cfg env)) = Inl e \<longrightarrow>
          HandleEvent env ctx ev w =
            Some (Inl (Errorf
                    ''Failed to parse ecdsa private key from deqode vault private key sting with error : %s''
                    [AError e]), w3)) \<and>
       (\<forall>gasPrice vaultKey e.
          config_Parse env = None \<and> ethclient_Dial env url = None \<and>
          suggestGasPrice env = Inr gasPrice \<and>
          HexToECDSA env (deqodeVaultPrivateKey (cfg env)) = Inr vaultKey \<and>
          HexToECDSA env (TokenHolderProcessingKey (cfg env)) = Inl e \<longrightarrow>
          HandleEvent env ctx ev w =
            Some (Inl (Errorf
                    ''Failed to parse ecdsa private key from token holder processing key string with error : %s''
                    [AError e]), w3)) \<and>
       (\<forall>gasPrice vaultKey processingKey e.
          config_Parse env = None \<and> ethclient_Dial env url = None \<and>
          suggestGasPrice env = Inr gasPrice \<and>
          HexToECDSA env (deqodeVaultPrivateKey (cfg env)) = Inr vaultKey \<and>
          HexToECDSA env (TokenHolderProcessingKey (cfg env)) = Inr processingKey \<and>
          balanceAt env (PubkeyToAddress env vaultKey) = Inl e \<longrightarrow>
          HandleEvent env ctx ev w =
            Some (Inl (Errorf ''Failed to get balance for vault with error : %s'' [AError e]),
                  record_call (BalanceAt (PubkeyToAddress env vaultKey)) (Some e) w3))) \<and>
   (prepared env k1 k2 P B \<longrightarrow>
      (B - gasLimit * 2 * P \<le> 0 \<longrightarrow>
         HandleEvent env ctx ev w =
           Some (Inl (Errorf ''Not enough balance in vault to cover txn fees'' []),
                 prepared_world env k1 w)) \<and>
      (gasLimit * 2 * P < B \<longrightarrow>
         (let w0 = prepared_world env k1 w;
              a1 = HexToAddress env (deqodeAddress (cfg env));
              a2 = HexToAddress env (TokenHolderContractAddress (cfg env));
              A1 = \<lparr>Signer = k1, GasPrice = Some P, GasLimit = 21000,
                     Value = Some (first_value (B - gasLimit * 2 * P))\<rparr>;
              A2 = \<lparr>Signer = k1, GasPrice = Some P, GasLimit = 21000,
                     Value = Some (second_value (B - gasLimit * 2 * P))\<rparr>;
              K = NewKeyedTransactor k2
          in (\<forall>e. transfer env (sent w0) A1 a2 = Inl e \<longrightarrow>
                HandleEvent env ctx ev w =
                  Some (Inl (Errorf
                          ''Failed to transfer vault balance to token holder contract with error : %s''
                          [AError e]),
                        submit (Transfer A1 a2) (Inl e) w0)) \<and>
             (\<forall>h e u.
                transfer env (sent w0) A1 a2 = Inr h \<and>
                waitForTx env ctx h (submit (Transfer A1 a2) (Inr h) w0) = Some (Some e, u) \<longrightarrow>
                HandleEvent env ctx ev w =
                  Some (Inl (Errorf ''Fund transfer txn with hash %s failed  with error : %s''
                          [AHash h, AError e]), u)) \<and>
             (\<forall>w2. confirmed env ctx (Transfer A1 a2) (transfer env (sent w0) A1 a2) w0 w2 \<longrightarrow>
                (\<forall>e. transfer env (sent w2) A2 a1 = Inl e \<longrightarrow>
                   HandleEvent env ctx ev w =
                     Some (Inl (Errorf
                             ''Failed to transfer vault balance to deqode address with error : %s''
                             [AError e]),
                           submit (Transfer A2 a1) (Inl e) w2)) \<and>
                (\<forall>h e u.
                   transfer env (sent w2) A2 a1 = Inr h \<and>
                   waitForTx env ctx h (submit (Transfer A2 a1) (Inr h) w2) = Some (Some e, u) \<longrightarrow>
                   HandleEvent env ctx ev w =
                     Some (Inl (Errorf ''Fund transfer txn with hash %s failed  with error : %s''
                             [AHash h, AError e]), u)) \<and>
                (\<forall>w4. confirmed env ctx (Transfer A2 a1) (transfer env (sent w2) A2 a1) w2 w4 \<longrightarrow>
                   (\<forall>e. newContract env a2 = Some e \<longrightarrow>
                      HandleEvent env ctx ev w =
                        Some (Inl (Errorf
                                ''Failed to load token holder contract for address %s with error : %s''
                                [AAddress a2, AError e]),
                              record_call (NewContract a2) (Some e) w4)) \<and>
                   (newContract env a2 = None \<longrightarrow>
                      (let w5 = record_call (NewContract a2) None w4
                       in (\<forall>e. sellVouchers env (sent w5) K = Inl e \<longrightarrow>
                             HandleEvent env ctx ev w =
                               Some (Inl (Errorf
                                       ''Failed to  call sell vouchers of token holder program contract with error : %s''
                                       [AError e]),
                                     submit (SellVouchers K) (Inl e) w5)) \<and>
                          (\<forall>h e u.
                             sellVouchers env (sent w5) K = Inr h \<and>
                             waitForTx env ctx h (submit (SellVouchers K) (Inr h) w5)
                               = Some (Some e, u) \<longrightarrow>
                             HandleEvent env ctx ev w =
                               Some (Inl (Errorf
                                       ''Sell vouchers txn with hash %s failed  with error : %s''
                                       [AHash h, AError e]), u)) \<and>
                          (\<forall>w6. confirmed env ctx (SellVouchers K)
                                  (sellVouchers env (sent w5) K) w5 w6 \<longrightarrow>
                             (\<forall>e. buyVouchers env (sent w6) K = Inl e \<longrightarrow>
                                HandleEvent env ctx ev w =
                                  Some (Inl (Errorf
                                          ''Failed to  call buy vouchers of token holder program contract with error : %s''
                                          [AError e]),
                                        submit (BuyVouchers K) (Inl e) w6)) \<and>
                             (\<forall>h e u.
                                buyVouchers env (sent w6) K = Inr h \<and>
                                waitForTx env ctx h (submit (BuyVouchers K) (Inr h) w6)
                                  = Some (Some e, u) \<longrightarrow>
                                HandleEvent env ctx ev w =
                                  Some (Inl (Errorf
                                          ''Buy vouchers txn with hash %s failed  with error : %s''
                                          [AHash h, AError e]), u)))))))))) \<and>
   (\<forall>r w'. HandleEvent env ctx ev w = Some (r, w') \<longrightarrow>
      (\<forall>pre x post. trace w' = trace w @ pre @ x # post \<and> failure env x \<longrightarrow>
         post = [] \<and> isl r)) \<and>
   (prepared env k1 k2 P B \<and> gasLimit * 2 * P < B \<longrightarrow>
      (\<forall>r w'. HandleEvent env ctx ev w = Some (r, w') \<longrightarrow>
         (\<exists>n>0. submissions (drop (length (trace w)) (trace w')) =
                  take n (plan env k1 k2 P (B - gasLimit * 2 * P))) \<and>
         (\<forall>pre x post.
            trace w' = trace w @ pre @ x # post \<and> failure env x \<and>
            length (submissions (pre @ [x])) = 1 \<longrightarrow>
            submissions (drop (length (trace w)) (trace w')) =
              [transfer_call env k1 P (first_value (B - gasLimit * 2 * P))
                 (TokenHolderContractAddress (cfg env))])))"
proof (intro conjI, goal_cases)
  case 1
  show ?case
    by (simp add: HandleEvent_def formatError_def record_call_def Let_def)
next
  case 2
  show ?case
    unfolding Let_def
    by (auto simp add: HandleEvent_prepared subtract_fees_eq transfers_def vouchers_def
        confirmed_def formatError_def NewKeyedTransactor_def gasLimit_def Let_def
        split: sum.splits)
next
  case 3
  show ?case
  proof (intro allI impI)
    fix r w' pre x post
    assume run: "HandleEvent env ctx ev w = Some (r, w')"
      and a: "trace w' = trace w @ pre @ x # post \<and> failure env x"
    from run obtain cs where "stretch env w (\<not> isl r) w' cs"
      using HandleEvent_stretch by blast
    with a have "post = [] \<and> \<not> \<not> isl r"
      using stretch_failure_last [of env w "\<not> isl r" w' cs pre x post] by simp
    then show "post = [] \<and> isl r"
      by simp
  qed
next
  case 4
  show ?case
  proof (intro allI impI)
    fix r w'
    assume "prepared env k1 k2 P B \<and> gasLimit * 2 * P < B"
      and run: "HandleEvent env ctx ev w = Some (r, w')"
    then have p: "prepared env k1 k2 P B" and pos: "0 < subtract_fees B P"
      by (simp_all add: subtract_fees_eq)
    from HandleEvent_plan [OF p pos run] obtain n where n: "0 < n"
      "stretch env w (\<not> isl r) w' (take n (plan env k1 k2 P (B - gasLimit * 2 * P)))"
      unfolding subtract_fees_eq by blast
    from n(2) have subs: "submissions (drop (length (trace w)) (trace w')) =
        take n (plan env k1 k2 P (B - gasLimit * 2 * P))"
      by (rule stretch_submissions)
    have only: "submissions (drop (length (trace w)) (trace w')) =
        [transfer_call env k1 P (first_value (B - gasLimit * 2 * P))
           (TokenHolderContractAddress (cfg env))]"
      if a: "trace w' = trace w @ pre @ x # post \<and> failure env x \<and>
        length (submissions (pre @ [x])) = 1" for pre x post
    proof -
      from a n(2) have "post = [] \<and> \<not> \<not> isl r"
        using stretch_failure_last [of env w "\<not> isl r" w'
            "take n (plan env k1 k2 P (B - gasLimit * 2 * P))" pre x post]
        by simp
      with a have "drop (length (trace w)) (trace w') = pre @ [x]"
        by simp
      with a subs have "length (take n (plan env k1 k2 P (B - gasLimit * 2 * P))) = 1"
        by simp
      then have "n = 1"
        by (auto simp add: plan_def min_def split: if_splits)
      with subs show ?thesis
        by (simp add: plan_def)
    qed
    from n(1) subs only
    show "(\<exists>n>0. submissions (drop (length (trace w)) (trace w')) =
                  take n (plan env k1 k2 P (B - gasLimit * 2 * P))) \<and>
         (\<forall>pre x post.
            trace w' = trace w @ pre @ x # post \<and> failure env x \<and>
            length (submissions (pre @ [x])) = 1 \<longrightarrow>
            submissions (drop (length (trace w)) (trace w')) =
              [transfer_call env k1 P (first_value (B - gasLimit * 2 * P))
                 (TokenHolderContractAddress (cfg env))])"
      by blast
  qed
qed

theorem failure_ends_run_witness:
  "HandleEvent ((mock True (\<lambda>n. Inr good) 900000 10)\<lparr>config_Parse := Some (External ''no url'')\<rparr>)
     background tick start =
     Some (Inl (Errorf ''Unable to parse environment variables with error : %s''
                  [AError (External ''no url'')]),
           \<lparr>now = 0, queries = 0, sent = 0, trace = [Entry Parse (Some (External ''no url''))]\<rparr>) \<and>
   HandleEvent (mock True (\<lambda>n. Inr reverted) 900000 10) background tick start =
     Some (Inl (Errorf ''Fund transfer txn with hash %s failed  with error : %s''
                  [AHash 100, AError (Errorf ''tx failed: %+v'' [AReceipt reverted])]),
       \<lparr>now = 0, queries = 1, sent = 1,
        trace =
          [Entry Parse None, Entry (Dial ''url'') None,
           Entry SuggestGasPrice None, Entry (BalanceAt 11) None,
           Entry (Transfer \<lparr>Signer = 1, GasPrice = Some 10, GasLimit = 21000,
                            Value = Some 160000\<rparr> 4) None,
           Entry Commit None,
           Entry (TransactionReceipt 100) (Some (Errorf ''tx failed: %+v'' [AReceipt reverted]))]\<rparr>) \<and>
   (\<exists>u. HandleEvent (mock True (\<lambda>n. if n < 3 then Inr good else Inr reverted) 900000 10)
          background tick start =
        Some (Inl (Errorf ''Buy vouchers txn with hash %s failed  with error : %s''
                     [AHash 103, AError (Errorf ''tx failed: %+v'' [AReceipt reverted])]), u) \<and>
        queries u = 4 \<and> sent u = 4)"
proof (intro conjI)
  let ?env = "(mock True (\<lambda>n. Inr good) 900000 10)\<lparr>config_Parse := Some (External ''no url'')\<rparr>"
  have cp: "config_Parse ?env = Some (External ''no url'')"
    by simp
  note T = failure_ends_run [where env = ?env and ctx = background and ev = tick and w = start
      and ?k1.0 = 1 and ?k2.0 = 2 and P = 10 and B = 900000, unfolded Let_def]
  from T [THEN conjunct1, THEN conjunct1, rule_format, OF cp]
  have "HandleEvent ?env background tick start =
      Some (Inl (Errorf ''Unable to parse environment variables with error : %s''
                   [AError (External ''no url'')]),
            record_call Parse (config_Parse ?env) start)" .
  then show "HandleEvent ?env background tick start =
      Some (Inl (Errorf ''Unable to parse environment variables with error : %s''
                   [AError (External ''no url'')]),
            \<lparr>now = 0, queries = 0, sent = 0, trace = [Entry Parse (Some (External ''no url''))]\<rparr>)"
    by (simp add: record_call_def start_def)
next
  let ?env = "mock True (\<lambda>n. Inr reverted) 900000 10"
  let ?w0 = "prepared_world ?env 1 start"
  let ?a2 = "HexToAddress ?env (TokenHolderContractAddress (cfg ?env))"
  let ?A1 = "\<lparr>Signer = 1, GasPrice = Some 10, GasLimit = 21000,
              Value = Some (first_value (900000 - gasLimit * 2 * 10))\<rparr>"
  let ?E = "Errorf ''tx failed: %+v'' [AReceipt reverted]"
  let ?u = "\<lparr>now = 0, queries = 1, sent = 1,
        trace =
          [Entry Parse None, Entry (Dial ''url'') None,
           Entry SuggestGasPrice None, Entry (BalanceAt 11) None,
           Entry (Transfer \<lparr>Signer = 1, GasPrice = Some 10, GasLimit = 21000,
                            Value = Some 160000\<rparr> 4) None,
           Entry Commit None,
           Entry (TransactionReceipt 100) (Some ?E)]\<rparr>"
  have p: "prepared ?env 1 2 10 900000"
    by (rule mock_prepared)
  have fee: "gasLimit * 2 * 10 < 900000"
    by (simp add: gasLimit_def)
  have t1: "transfer ?env (sent ?w0) ?A1 ?a2 = Inr 100"
    by (simp add: mock_def prepared_world_def start_def)
  have wait1: "waitForTx ?env background 100 (submit (Transfer ?A1 ?a2) (Inr 100) ?w0) =
      Some (Some ?E, ?u)"
    by (simp add: waitForTx_def commit_and_check_eq found_def check_status_def submit_def
        record_call_def prepared_world_def mock_def start_def reverted_def first_value_def
        gasLimit_def int3_def)
  note T = failure_ends_run [where env = ?env and ctx = background and ev = tick and w = start
      and ?k1.0 = 1 and ?k2.0 = 2 and P = 10 and B = 900000, unfolded Let_def]
  note steps = T [THEN conjunct2, THEN conjunct1, rule_format, OF p,
      THEN conjunct2, rule_format, OF fee]
  from steps [THEN conjunct2, THEN conjunct1, rule_format, OF conjI [OF t1 wait1]]
  show "HandleEvent ?env background tick start =
      Some (Inl (Errorf ''Fund transfer txn with hash %s failed  with error : %s''
                   [AHash 100, AError ?E]), ?u)" .
next
  let ?env = "mock True (\<lambda>n. if n < 3 then Inr good else Inr reverted) 900000 10"
  let ?w0 = "prepared_world ?env 1 start"
  let ?a1 = "HexToAddress ?env (deqodeAddress (cfg ?env))"
  let ?a2 = "HexToAddress ?env (TokenHolderContractAddress (cfg ?env))"
  let ?A1 = "\<lparr>Signer = 1, GasPrice = Some 10, GasLimit = 21000,
              Value = Some (first_value (900000 - gasLimit * 2 * 10))\<rparr>"
  let ?A2 = "\<lparr>Signer = 1, GasPrice = Some 10, GasLimit = 21000,
              Value = Some (second_value (900000 - gasLimit * 2 * 10))\<rparr>"
  let ?K = "NewKeyedTransactor 2"
  let ?E = "Errorf ''tx failed: %+v'' [AReceipt reverted]"
  let ?w2 = "snd (commit_and_check ?env 100 (submit (Transfer ?A1 ?a2) (Inr 100) ?w0))"
  let ?w4 = "snd (commit_and_check ?env 101 (submit (Transfer ?A2 ?a1) (Inr 101) ?w2))"
  let ?w5 = "record_call (NewContract ?a2) None ?w4"
  let ?w6 = "snd (commit_and_check ?env 102 (submit (SellVouchers ?K) (Inr 102) ?w5))"
  let ?u = "snd (commit_and_check ?env 103 (submit (BuyVouchers ?K) (Inr 103) ?w6))"
  note ev = waitForTx_def commit_and_check_eq found_def check_status_def submit_def
    record_call_def prepared_world_def mock_def start_def good_def reverted_def confirmed_def
  have p: "prepared ?env 1 2 10 900000"
    by (rule mock_prepared)
  have fee: "gasLimit * 2 * 10 < 900000"
    by (simp add: gasLimit_def)
  have c1: "confirmed ?env background (Transfer ?A1 ?a2) (transfer ?env (sent ?w0) ?A1 ?a2) ?w0 ?w2"
    by (simp add: ev)
  have c2: "confirmed ?env background (Transfer ?A2 ?a1) (transfer ?env (sent ?w2) ?A2 ?a1) ?w2 ?w4"
    by (simp add: ev)
  have nc: "newContract ?env ?a2 = None"
    by (simp add: mock_def)
  have c3: "confirmed ?env background (SellVouchers ?K) (sellVouchers ?env (sent ?w5) ?K) ?w5 ?w6"
    by (simp add: ev)
  have t4: "buyVouchers ?env (sent ?w6) ?K = Inr 103"
    by (simp add: ev)
  have wait4: "waitForTx ?env background 103 (submit (BuyVouchers ?K) (Inr 103) ?w6) =
      Some (Some ?E, ?u)"
    by (simp add: ev)
  note T = failure_ends_run [where env = ?env and ctx = background and ev = tick and w = start
      and ?k1.0 = 1 and ?k2.0 = 2 and P = 10 and B = 900000, unfolded Let_def]
  note steps = T [THEN conjunct2, THEN conjunct1, rule_format, OF p,
      THEN conjunct2, rule_format, OF fee]
  note after1 = steps [THEN conjunct2, THEN conjunct2, rule_format, OF c1]
  note after2 = after1 [THEN conjunct2, THEN conjunct2, rule_format, OF c2]
  note bound = after2 [THEN conjunct2, rule_format, OF nc]
  note after3 = bound [THEN conjunct2, THEN conjunct2, rule_format, OF c3]
  from after3 [THEN conjunct2, rule_format, OF conjI [OF t4 wait4]]
  have "HandleEvent ?env background tick start =
      Some (Inl (Errorf ''Buy vouchers txn with hash %s failed  with error : %s''
                   [AHash 103, AError ?E]), ?u)" .
  moreover have "queries ?u = 4" and "sent ?u = 4"
    by (simp_all add: ev)
  ultimately show "\<exists>u. HandleEvent ?env background tick start =
      Some (Inl (Errorf ''Buy vouchers txn with hash %s failed  with error : %s''
                   [AHash 103, AError ?E]), u) \<and> queries u = 4 \<and> sent u = 4"
    by blast
qed

end
